theory Spec2Isabelle
  imports Main "HOL-Library.Word" "HOL-Library.Sublist"
begin

section \<open>JavaScript strings\<close>

text \<open>
  A JavaScript string is a sequence of UTF-16 code units. The regular expressions of the
  scaffolding tool carry no \<open>u\<close> flag, so they work on code units too.
\<close>

type_synonym cu = "16 word"
type_synonym jsstring = "cu list"

definition js :: "string \<Rightarrow> jsstring" where
  "js s = map of_char s"

definition hyphen :: cu where
  "hyphen = 0x2D"

definition slash :: cu where
  "slash = 0x2F"

definition dollar :: cu where
  "dollar = 0x24"

text \<open>
  The code units matched by \<open>\s\<close> and removed by \<open>String.prototype.trim\<close>: ECMAScript's
  WhiteSpace and LineTerminator productions (TAB, LF, VT, FF, CR, SP, NBSP, the Unicode
  space separators, LS, PS and the byte order mark).
\<close>

definition isWhiteSpace :: "cu \<Rightarrow> bool" where
  "isWhiteSpace c \<longleftrightarrow>
     c = 0x9 \<or> c = 0xA \<or> c = 0xB \<or> c = 0xC \<or> c = 0xD \<or> c = 0x20 \<or> c = 0xA0 \<or>
     c = 0x1680 \<or> (0x2000 \<le> c \<and> c \<le> 0x200A) \<or> c = 0x2028 \<or> c = 0x2029 \<or>
     c = 0x202F \<or> c = 0x205F \<or> c = 0x3000 \<or> c = 0xFEFF"

definition trim :: "jsstring \<Rightarrow> jsstring" where
  "trim s = rev (dropWhile isWhiteSpace (rev (dropWhile isWhiteSpace s)))"

definition asciiLower :: "cu \<Rightarrow> cu" where
  "asciiLower c = (if 0x41 \<le> c \<and> c \<le> 0x5A then c + 0x20 else c)"

text \<open>
  \<open>String.prototype.toLowerCase\<close> maps the string code point by code point. An ASCII code
  unit maps to itself, or to the small letter when it is a capital letter. What a code unit
  beyond ASCII at index \<open>i\<close> of \<open>s\<close> contributes is decided by the Unicode case tables of the
  runtime (possibly looking at the neighbours, as for the final sigma, and possibly yielding
  ASCII letters, as for the Kelvin sign); those tables are the parameter \<open>tbl\<close>.
\<close>

definition toLowerCase :: "(jsstring \<Rightarrow> nat \<Rightarrow> jsstring) \<Rightarrow> jsstring \<Rightarrow> jsstring" where
  "toLowerCase tbl s =
     concat (map (\<lambda>i. if s ! i < 0x80 then [asciiLower (s ! i)] else tbl s i) [0..<length s])"

text \<open>
  \<open>s.replace(/X+/g, r)\<close> for a class \<open>X\<close> of code units: scanning from the left, each maximal
  run of code units of the class is replaced by the single code unit \<open>r\<close>.
\<close>

function replaceRuns :: "(cu \<Rightarrow> bool) \<Rightarrow> cu \<Rightarrow> jsstring \<Rightarrow> jsstring" where
  "replaceRuns P r [] = []"
| "replaceRuns P r (c # cs) =
     (if P c then r # replaceRuns P r (dropWhile P cs) else c # replaceRuns P r cs)"
  by pat_completeness auto
termination
  by (relation "measure (\<lambda>(P, r, s). length s)") (auto simp: length_dropWhile_le less_Suc_eq_le)

text \<open>The complement of the class \<open>[^a-z0-9-_.]\<close>.\<close>

definition slugClass :: "cu \<Rightarrow> bool" where
  "slugClass c \<longleftrightarrow>
     (0x61 \<le> c \<and> c \<le> 0x7A) \<or> (0x30 \<le> c \<and> c \<le> 0x39) \<or> c = 0x2D \<or> c = 0x5F \<or> c = 0x2E"

text \<open>
  \<open>s.replace(/(^-|-$)/g, '')\<close>: a hyphen is deleted when it stands at index 0 or at the last
  index; \<open>atStart\<close> says whether the scan is at index 0.
\<close>

fun stripEdge :: "bool \<Rightarrow> jsstring \<Rightarrow> jsstring" where
  "stripEdge atStart [] = []"
| "stripEdge atStart (c # cs) =
     (if c = hyphen \<and> (atStart \<or> cs = []) then stripEdge False cs else c # stripEdge False cs)"

section \<open>slugify\<close>

text \<open>
  \<^verbatim>\<open>
  function slugify(name) {
      return name.toString().trim().toLowerCase()
          .replace(/\s+/g, '-').replace(/[^a-z0-9-_.]/g, '-')
          .replace(/-+/g, '-').replace(/(^-|-$)/g, '');
  }
  \<close>
  The two source files differ only in writing the dot of the class as \<open>.\<close> or \<open>\.\<close>.
  The argument is a string, so \<open>toString\<close> returns it unchanged.
\<close>

definition slugify :: "(jsstring \<Rightarrow> nat \<Rightarrow> jsstring) \<Rightarrow> jsstring \<Rightarrow> jsstring" where
  "slugify tbl name =
     stripEdge True
       (replaceRuns (\<lambda>c. c = hyphen) hyphen
         (map (\<lambda>c. if slugClass c then c else hyphen)
           (replaceRuns isWhiteSpace hyphen
             (toLowerCase tbl (trim name)))))"

subsection \<open>The shape of a slug\<close>

fun adjacentHyphens :: "jsstring \<Rightarrow> bool" where
  "adjacentHyphens (a # b # cs) = ((a = hyphen \<and> b = hyphen) \<or> adjacentHyphens (b # cs))"
| "adjacentHyphens _ = False"

definition startsWithHyphen :: "jsstring \<Rightarrow> bool" where
  "startsWithHyphen s = (case s of [] \<Rightarrow> False | c # _ \<Rightarrow> c = hyphen)"

definition endsWithHyphen :: "jsstring \<Rightarrow> bool" where
  "endsWithHyphen s = startsWithHyphen (rev s)"

definition isUpperAscii :: "cu \<Rightarrow> bool" where
  "isUpperAscii c \<longleftrightarrow> 0x41 \<le> c \<and> c \<le> 0x5A"

definition slugShaped :: "jsstring \<Rightarrow> bool" where
  "slugShaped r \<longleftrightarrow> list_all slugClass r \<and> \<not> adjacentHyphens r
     \<and> \<not> startsWithHyphen r \<and> \<not> endsWithHyphen r"

section \<open>Option values\<close>

text \<open>
  The options reach the action as the argument parser hands them over. A value of
  \<open>--template\<close> or \<open>--repo\<close> that reads as a number arrives as a number, and an option
  given several times arrives as an array. The action only tests such a value for
  truthiness and then calls a string method on it, so three cases are kept apart: a string,
  the number zero (falsy), and any other value that is not a string (truthy, and without
  the methods \<open>replace\<close> and \<open>trim\<close>).
\<close>

datatype optvalue = Str jsstring | Zero | Other

datatype jserror = JsError jsstring

text \<open>The TypeError of calling a method that the value does not have.\<close>

definition notAFunction :: "jsstring \<Rightarrow> jserror" where
  "notAFunction method = JsError (js ''TypeError: '' @ method @ js '' is not a function'')"

section \<open>Fetch specifications\<close>

text \<open>\<open>s.replace(/^\/+/, '')\<close> and \<open>s.replace(/\/+$/, '')\<close>.\<close>

definition stripLeadingSlashes :: "jsstring \<Rightarrow> jsstring" where
  "stripLeadingSlashes s = dropWhile (\<lambda>c. c = slash) s"

definition stripTrailingSlashes :: "jsstring \<Rightarrow> jsstring" where
  "stripTrailingSlashes s = rev (dropWhile (\<lambda>c. c = slash) (rev s))"

text \<open>\<open>a || b\<close> on strings: the empty string is falsy.\<close>

definition orElse :: "jsstring \<Rightarrow> jsstring \<Rightarrow> jsstring" where
  "orElse a b = (if a = [] then b else a)"

record options =
  template :: optvalue
  repo :: optvalue
  install :: bool
  noGit :: bool

text \<open>
  src/bin/index.js:
  \<^verbatim>\<open>
  const templatePath = (options.template || 'template').replace(/^\/+/, '');
  let repoBase = (options.repo || '').trim().replace(/\/+$/, '');
  const buildSpec = (base) => templatePath === '.' ? base : `${base}/${templatePath}`;
  let repoSpec = buildSpec(repoBase);
  \<close>
\<close>

definition templatePath_index :: "options \<Rightarrow> jserror + jsstring" where
  "templatePath_index opts =
     (case template opts of
        Str s \<Rightarrow> Inr (stripLeadingSlashes (orElse s (js ''template'')))
      | Zero \<Rightarrow> Inr (stripLeadingSlashes (js ''template''))
      | Other \<Rightarrow> Inl (notAFunction (js ''replace'')))"

definition repoBase :: "options \<Rightarrow> jserror + jsstring" where
  "repoBase opts =
     (case repo opts of
        Str s \<Rightarrow> Inr (stripTrailingSlashes (trim (orElse s [])))
      | Zero \<Rightarrow> Inr (stripTrailingSlashes (trim []))
      | Other \<Rightarrow> Inl (notAFunction (js ''trim'')))"

definition buildSpec :: "jsstring \<Rightarrow> jsstring \<Rightarrow> jsstring" where
  "buildSpec templatePath base =
     (if templatePath = js ''.'' then base else base @ js ''/'' @ templatePath)"


text \<open>
  src/unnamed/part_000 (the variant that detects the installer):
  \<^verbatim>\<open>
  const templatePath = options.template || 'template';
  let repoBase = (options.repo || '').trim();
  repoBase = repoBase.replace(/\/+$/, '');
  const repoSpec = templatePath === '.'
      ? repoBase : `${repoBase}/${templatePath.replace(/^\/+/, '')}`;
  \<close>
\<close>

definition templatePath_part000 :: "options \<Rightarrow> optvalue" where
  "templatePath_part000 opts =
     (case template opts of
        Str s \<Rightarrow> Str (orElse s (js ''template''))
      | Zero \<Rightarrow> Str (js ''template'')
      | Other \<Rightarrow> Other)"

text \<open>
  Here the descriptor is trimmed before the template path is used, so the TypeError of the
  descriptor comes first. A template path that is not a string is not equal to \<open>.\<close> and
  has no \<open>replace\<close>.
\<close>

definition repoSpec_part000 :: "options \<Rightarrow> jserror + jsstring" where
  "repoSpec_part000 opts =
     (case repoBase opts of
        Inl err \<Rightarrow> Inl err
      | Inr base \<Rightarrow>
          (case templatePath_part000 opts of
             Str templatePath \<Rightarrow>
               Inr (if templatePath = js ''.'' then base
                    else base @ js ''/'' @ stripLeadingSlashes templatePath)
           | Zero \<Rightarrow> Inl (notAFunction (js ''replace''))
           | Other \<Rightarrow> Inl (notAFunction (js ''replace''))))"


section \<open>Replacing a literal token\<close>

text \<open>
  \<open>s.replace(/token/g, replacement)\<close> for a pattern that is a non-empty literal without
  capture groups. The replacement is a string, so the runtime expands its dollar patterns
  (GetSubstitution): \<open>$$\<close> is a dollar sign, \<open>$&\<close> the matched text, \<open>$`\<close> the text before
  the match and \<open>$'\<close> the text after it; with no capture group every other use of the
  dollar sign stands for itself.
\<close>

fun getSubstitution :: "jsstring \<Rightarrow> jsstring \<Rightarrow> jsstring \<Rightarrow> jsstring \<Rightarrow> jsstring" where
  "getSubstitution matched preceding following [] = []"
| "getSubstitution matched preceding following [c] = [c]"
| "getSubstitution matched preceding following (c # d # r) =
     (if c = dollar \<and> d = dollar then dollar # getSubstitution matched preceding following r
      else if c = dollar \<and> d = 0x26 then matched @ getSubstitution matched preceding following r
      else if c = dollar \<and> d = 0x60 then preceding @ getSubstitution matched preceding following r
      else if c = dollar \<and> d = 0x27 then following @ getSubstitution matched preceding following r
      else c # getSubstitution matched preceding following (d # r))"

text \<open>
  The scan goes from the left; \<open>preceding\<close> is the part of the subject already passed. Behind a
  match the scan goes on, so the matches do not overlap.
\<close>

function replaceAllFrom :: "jsstring \<Rightarrow> jsstring \<Rightarrow> jsstring \<Rightarrow> jsstring \<Rightarrow> jsstring" where
  "replaceAllFrom tok rep preceding [] = []"
| "replaceAllFrom tok rep preceding (c # cs) =
     (if tok \<noteq> [] \<and> prefix tok (c # cs)
      then getSubstitution tok preceding (drop (length tok) (c # cs)) rep
           @ replaceAllFrom tok rep (preceding @ tok) (drop (length tok) (c # cs))
      else c # replaceAllFrom tok rep (preceding @ [c]) cs)"
  by pat_completeness auto
termination
  by (relation "measure (\<lambda>(tok, rep, preceding, s). length s)") (auto simp: neq_Nil_conv)

definition replaceAll :: "jsstring \<Rightarrow> jsstring \<Rightarrow> jsstring \<Rightarrow> jsstring" where
  "replaceAll tok rep s = replaceAllFrom tok rep [] s"

text \<open>
  Replacing every literal occurrence of a token by a text, as the specification words it:
  the same scan, the text inserted as it is.
\<close>

function substitute :: "jsstring \<Rightarrow> jsstring \<Rightarrow> jsstring \<Rightarrow> jsstring" where
  "substitute tok rep [] = []"
| "substitute tok rep (c # cs) =
     (if tok \<noteq> [] \<and> prefix tok (c # cs)
      then rep @ substitute tok rep (drop (length tok) (c # cs))
      else c # substitute tok rep cs)"
  by pat_completeness auto
termination
  by (relation "measure (\<lambda>(tok, rep, s). length s)") (auto simp: neq_Nil_conv)

text \<open>
  A replacement overlaps a token when it is empty, when one of the two is a part of the
  other, or when a beginning of the replacement is an end of the token or an end of the
  replacement a beginning of the token.
\<close>

definition overlaps :: "jsstring \<Rightarrow> jsstring \<Rightarrow> bool" where
  "overlaps rep tok \<longleftrightarrow>
     rep = [] \<or> sublist rep tok \<or> sublist tok rep
     \<or> list_ex (\<lambda>x. x \<noteq> [] \<and> suffix x tok) (prefixes rep)
     \<or> list_ex (\<lambda>x. x \<noteq> [] \<and> prefix x tok) (suffixes rep)"

definition templateNameToken :: jsstring where
  "templateNameToken = js ''convexity-n-layer-template''"

definition projectNameToken :: jsstring where
  "projectNameToken = js ''__PROJECT_NAME__''"

definition projectSlugToken :: jsstring where
  "projectSlugToken = js ''__PROJECT_SLUG__''"

text \<open>
  src/bin/index.js:
  \<^verbatim>\<open>
  const slug = slugify(projectName);
  pkg = pkg.replace(/convexity-n-layer-template/g, projectName);
  pkg = pkg.replace(/__PROJECT_SLUG__/g, slug);
  \<close>
  src/unnamed/part_000 replaces \<open>/__PROJECT_NAME__/g\<close> in the first step.
\<close>

definition rewriteText_index :: "(jsstring \<Rightarrow> nat \<Rightarrow> jsstring) \<Rightarrow> jsstring \<Rightarrow> jsstring \<Rightarrow> jsstring" where
  "rewriteText_index tbl projectName pkg =
     replaceAll projectSlugToken (slugify tbl projectName)
       (replaceAll templateNameToken projectName pkg)"

definition rewriteText_part000 :: "(jsstring \<Rightarrow> nat \<Rightarrow> jsstring) \<Rightarrow> jsstring \<Rightarrow> jsstring \<Rightarrow> jsstring" where
  "rewriteText_part000 tbl projectName pkg =
     replaceAll projectSlugToken (slugify tbl projectName)
       (replaceAll projectNameToken projectName pkg)"

section \<open>The world of a run\<close>

text \<open>
  The file system is a table from absolute paths (lists of components) to nodes; the trace
  records, in order, every message printed and every call to a collaborator (prompts, file
  system, degit, execa).
\<close>

type_synonym path = "jsstring list"

datatype node = File jsstring | Dir

type_synonym filesystem = "(path \<times> node) list"

datatype event =
    Log jsstring
  | Warn jsstring
  | Error jsstring
  | ErrorReport jserror
  | AskText
  | AskConfirm jsstring
  | PathExists path
  | Readdir path
  | Remove path
  | ReadFile path
  | WriteFile path jsstring
  | Degit jsstring
  | Clone jsstring path
  | Execa jsstring "jsstring list" path

record world =
  files :: filesystem
  trace :: "event list"

text \<open>
  A step either returns a value, throws, or ends the process through \<open>process.exit\<close>.
\<close>

datatype 'a outcome = Return 'a | Throw jserror | Exit nat

type_synonym 'a prog = "world \<Rightarrow> 'a outcome \<times> world"

definition emit :: "event \<Rightarrow> world \<Rightarrow> world" where
  "emit e w = w\<lparr>trace := trace w @ [e]\<rparr>"

definition ret :: "'a \<Rightarrow> 'a prog" where
  "ret x w = (Return x, w)"

definition throwErr :: "jserror \<Rightarrow> 'a prog" where
  "throwErr e w = (Throw e, w)"

definition processExit :: "nat \<Rightarrow> 'a prog" where
  "processExit n w = (Exit n, w)"

definition say :: "event \<Rightarrow> unit prog" where
  "say e w = (Return (), emit e w)"

definition andThen :: "'a prog \<Rightarrow> ('a \<Rightarrow> 'b prog) \<Rightarrow> 'b prog" where
  "andThen m f w =
     (case m w of
        (Return x, w') \<Rightarrow> f x w'
      | (Throw e, w') \<Rightarrow> (Throw e, w')
      | (Exit n, w') \<Rightarrow> (Exit n, w'))"

definition tryCatch :: "'a prog \<Rightarrow> (jserror \<Rightarrow> 'a prog) \<Rightarrow> 'a prog" where
  "tryCatch m h w =
     (case m w of
        (Return x, w') \<Rightarrow> (Return x, w')
      | (Throw e, w') \<Rightarrow> h e w'
      | (Exit n, w') \<Rightarrow> (Exit n, w'))"

text \<open>
  What the run cannot decide itself: the case tables of the runtime, the working directory
  and \<open>path.resolve\<close>, what the user answers, and how degit and the subprocesses behave.
  \<open>textAnswers\<close> are the lines the user submits to the text prompt, in order (an empty
  line stands for the initial value of the prompt); the prompt returns the first that its
  \<open>validate\<close> accepts and is cancelled when there is none.
  \<open>confirmAnswer\<close> is \<open>None\<close> when the confirmation is cancelled.
\<close>

record env =
  caseTable :: "jsstring \<Rightarrow> nat \<Rightarrow> jsstring"
  cwd :: path
  resolve :: "path \<Rightarrow> jsstring \<Rightarrow> path"
  textAnswers :: "jsstring list"
  confirmAnswer :: "bool option"
  degitFails :: "jsstring \<Rightarrow> jserror option"
  cloneResult :: "jsstring \<Rightarrow> path \<Rightarrow> filesystem \<Rightarrow> jserror option \<times> filesystem"
  execaResult ::
    "jsstring \<Rightarrow> jsstring list \<Rightarrow> path \<Rightarrow> filesystem \<Rightarrow> jserror option \<times> filesystem"

subsection \<open>fs-extra\<close>

definition pathExists :: "path \<Rightarrow> bool prog" where
  "pathExists p w = (Return (map_of (files w) p \<noteq> None), emit (PathExists p) w)"

definition listing :: "filesystem \<Rightarrow> path \<Rightarrow> jsstring list" where
  "listing fs p = remdups (map last (filter (\<lambda>q. q \<noteq> [] \<and> butlast q = p) (map fst fs)))"

definition readdir :: "path \<Rightarrow> jsstring list prog" where
  "readdir p w =
     ((case map_of (files w) p of
         Some Dir \<Rightarrow> Return (listing (files w) p)
       | Some (File c) \<Rightarrow> Throw (JsError (js ''ENOTDIR''))
       | None \<Rightarrow> Throw (JsError (js ''ENOENT''))),
      emit (Readdir p) w)"

definition remove :: "path \<Rightarrow> unit prog" where
  "remove p w =
     (Return (), (emit (Remove p) w)\<lparr>files := filter (\<lambda>(q, n). \<not> prefix p q) (files w)\<rparr>)"

definition readFile :: "path \<Rightarrow> jsstring prog" where
  "readFile p w =
     ((case map_of (files w) p of
         Some (File c) \<Rightarrow> Return c
       | Some Dir \<Rightarrow> Throw (JsError (js ''EISDIR''))
       | None \<Rightarrow> Throw (JsError (js ''ENOENT''))),
      emit (ReadFile p) w)"

definition writeFile :: "path \<Rightarrow> jsstring \<Rightarrow> unit prog" where
  "writeFile p c w =
     (case map_of (files w) p of
        Some Dir \<Rightarrow> (Throw (JsError (js ''EISDIR'')), emit (WriteFile p c) w)
      | _ \<Rightarrow> (Return (),
          (emit (WriteFile p c) w)\<lparr>files := (p, File c) # filter (\<lambda>(q, n). q \<noteq> p) (files w)\<rparr>))"

subsection \<open>degit and execa\<close>

definition degit :: "env \<Rightarrow> jsstring \<Rightarrow> unit prog" where
  "degit e spec w =
     ((case degitFails e spec of None \<Rightarrow> Return () | Some err \<Rightarrow> Throw err),
      emit (Degit spec) w)"

definition clone :: "env \<Rightarrow> jsstring \<Rightarrow> path \<Rightarrow> unit prog" where
  "clone e spec targetDir w =
     (case cloneResult e spec targetDir (files w) of
        (r, fs') \<Rightarrow>
          ((case r of None \<Rightarrow> Return () | Some err \<Rightarrow> Throw err),
           (emit (Clone spec targetDir) w)\<lparr>files := fs'\<rparr>))"

definition execa :: "env \<Rightarrow> jsstring \<Rightarrow> jsstring list \<Rightarrow> path \<Rightarrow> unit prog" where
  "execa e cmd args dir w =
     (case execaResult e cmd args dir (files w) of
        (r, fs') \<Rightarrow>
          ((case r of None \<Rightarrow> Return () | Some err \<Rightarrow> Throw err),
           (emit (Execa cmd args dir) w)\<lparr>files := fs'\<rparr>))"

section \<open>The stages of the command action\<close>

definition nl :: jsstring where
  "nl = [0x0A]"

definition dq :: jsstring where
  "dq = [0x22]"

subsection \<open>Input resolver\<close>

text \<open>
  \<^verbatim>\<open>
  if (!projectName) {
      const res = await prompts({ type: 'text', ...,
              validate: (value) => (value && value.trim().length ? true : '...') },
          { onCancel: () => { console.log('Aborted.'); process.exit(1); } });
      projectName = res.name.trim();
  }
  \<close>
  The positional argument is \<open>None\<close> when it is not given. A line submitted empty
  stands for the initial value \<open>my-convexity-app\<close> of the prompt.
\<close>

definition promptProjectName :: "env \<Rightarrow> jsstring prog" where
  "promptProjectName e =
     andThen (say AskText) (\<lambda>_.
       case find (\<lambda>v. trim v \<noteq> [])
              (map (\<lambda>line. orElse line (js ''my-convexity-app'')) (textAnswers e)) of
         None \<Rightarrow> andThen (say (Log (js ''Aborted.''))) (\<lambda>_. processExit 1)
       | Some v \<Rightarrow> ret (trim v))"

definition resolveProjectName :: "env \<Rightarrow> jsstring option \<Rightarrow> jsstring prog" where
  "resolveProjectName e arg =
     (case arg of
        None \<Rightarrow> promptProjectName e
      | Some n \<Rightarrow> if n = [] then promptProjectName e else ret n)"

subsection \<open>Target directory guard\<close>

text \<open>
  \<^verbatim>\<open>
  if (await fs.pathExists(targetDir)) {
      const files = await fs.readdir(targetDir);
      if (files.length) {
          const response = await prompts({ type: 'confirm', name: 'overwrite', ... },
              { onCancel: () => { console.log('Aborted.'); process.exit(1); } });
          if (!response.overwrite) { console.log('Aborting.'); process.exit(1); }
          await fs.remove(targetDir);
      }
  }
  \<close>
\<close>

definition confirmOverwrite :: "env \<Rightarrow> jsstring \<Rightarrow> bool prog" where
  "confirmOverwrite e projectName =
     andThen
       (say (AskConfirm (js ''Directory '' @ projectName
          @ js '' already exists and is not empty. Overwrite?''))) (\<lambda>_.
       case confirmAnswer e of
         None \<Rightarrow> andThen (say (Log (js ''Aborted.''))) (\<lambda>_. processExit 1)
       | Some b \<Rightarrow> ret b)"

definition guardTargetDir :: "env \<Rightarrow> jsstring \<Rightarrow> path \<Rightarrow> unit prog" where
  "guardTargetDir e projectName targetDir =
     andThen (pathExists targetDir) (\<lambda>present.
       if present then
         andThen (readdir targetDir) (\<lambda>names.
           if names \<noteq> [] then
             andThen (confirmOverwrite e projectName) (\<lambda>overwrite.
               if \<not> overwrite then andThen (say (Log (js ''Aborting.''))) (\<lambda>_. processExit 1)
               else remove targetDir)
           else ret ())
       else ret ())"

subsection \<open>Template fetcher\<close>

definition cloneFailed :: "jsstring \<Rightarrow> jsstring" where
  "cloneFailed spec = js ''Failed to clone template from '' @ dq @ spec @ dq @ js ''.''"

definition makeSure :: jsstring where
  "makeSure = js ''Make sure the repo and template path are correct and the repo is public (or accessible).''"

definition retryWarning :: "jsstring \<Rightarrow> jsstring \<Rightarrow> jsstring" where
  "retryWarning failed retried =
     js ''Failed to clone from '' @ dq @ failed @ dq @ js ''. Retrying with '' @ dq @ retried
       @ dq @ js ''...''"

text \<open>
  src/bin/index.js:
  \<^verbatim>\<open>
  async function tryClone(spec) {
      const emitter = degit(spec, { cache: false, force: true, verbose: false });
      await emitter.clone(targetDir);
  }
  try {
      await tryClone(repoSpec);
  } catch (err) {
      if (repoBase.startsWith('github:')) {
          const fallbackBase = repoBase.replace(/^github:/, '');
          const fallbackSpec = buildSpec(fallbackBase);
          console.warn(`Failed to clone from "${repoSpec}". Retrying with "${fallbackSpec}"...`);
          await tryClone(fallbackSpec);
          repoSpec = fallbackSpec;
      } else {
          console.error(`Failed to clone template from "${repoSpec}".`);
          console.error('Make sure the repo and template path are correct ...');
          throw err;
      }
  }
  \<close>
  The stage returns the final value of \<open>repoSpec\<close>.
\<close>

definition tryClone :: "env \<Rightarrow> path \<Rightarrow> jsstring \<Rightarrow> unit prog" where
  "tryClone e targetDir spec = andThen (degit e spec) (\<lambda>_. clone e spec targetDir)"

definition fallbackSpec :: "jsstring \<Rightarrow> jsstring \<Rightarrow> jsstring" where
  "fallbackSpec templatePath base =
     buildSpec templatePath (drop (length (js ''github:'')) base)"

definition cloneWithFallback :: "env \<Rightarrow> jsstring \<Rightarrow> jsstring \<Rightarrow> path \<Rightarrow> jsstring prog" where
  "cloneWithFallback e templatePath base targetDir =
     tryCatch
       (andThen (tryClone e targetDir (buildSpec templatePath base)) (\<lambda>_.
        ret (buildSpec templatePath base)))
       (\<lambda>err.
          if prefix (js ''github:'') base then
            andThen
              (say (Warn (retryWarning (buildSpec templatePath base)
                 (fallbackSpec templatePath base)))) (\<lambda>_.
            andThen (tryClone e targetDir (fallbackSpec templatePath base)) (\<lambda>_.
            ret (fallbackSpec templatePath base)))
          else
            andThen (say (Error (cloneFailed (buildSpec templatePath base)))) (\<lambda>_.
            andThen (say (Error makeSure)) (\<lambda>_.
            throwErr err)))"

definition fetchTemplate_index :: "env \<Rightarrow> options \<Rightarrow> path \<Rightarrow> jsstring prog" where
  "fetchTemplate_index e opts targetDir =
     (case templatePath_index opts of
        Inl err \<Rightarrow> throwErr err
      | Inr templatePath \<Rightarrow>
          (case repoBase opts of
             Inl err \<Rightarrow> throwErr err
           | Inr base \<Rightarrow> cloneWithFallback e templatePath base targetDir))"

text \<open>
  src/unnamed/part_000:
  \<^verbatim>\<open>
  let emitter;
  try {
      emitter = degit(repoSpec, { cache: false, force: true, verbose: false });
  } catch (err) {
      console.error('Failed to create degit emitter. Check your repo/template path.');
      throw err;
  }
  try {
      await emitter.clone(targetDir);
  } catch (err) {
      console.error(`Failed to clone template from "${repoSpec}".`);
      console.error('Make sure the repo and template path are correct ...');
      throw err;
  }
  \<close>
\<close>

definition cloneOnce :: "env \<Rightarrow> jsstring \<Rightarrow> path \<Rightarrow> jsstring prog" where
  "cloneOnce e spec targetDir =
     andThen
       (tryCatch (degit e spec)
          (\<lambda>err.
             andThen
               (say (Error (js ''Failed to create degit emitter. Check your repo/template path.'')))
               (\<lambda>_. throwErr err))) (\<lambda>_.
     andThen
       (tryCatch (clone e spec targetDir)
          (\<lambda>err.
             andThen (say (Error (cloneFailed spec))) (\<lambda>_.
             andThen (say (Error makeSure)) (\<lambda>_.
             throwErr err)))) (\<lambda>_.
     ret spec))"

definition fetchTemplate_part000 :: "env \<Rightarrow> options \<Rightarrow> path \<Rightarrow> jsstring prog" where
  "fetchTemplate_part000 e opts targetDir =
     (case repoSpec_part000 opts of
        Inl err \<Rightarrow> throwErr err
      | Inr spec \<Rightarrow> cloneOnce e spec targetDir)"

subsection \<open>Manifest rewriter\<close>

text \<open>
  \<^verbatim>\<open>
  const pkgPath = path.join(targetDir, 'package.json');
  if (await fs.pathExists(pkgPath)) {
      let pkg = await fs.readFile(pkgPath, 'utf8');
      ... the two replacements ...
      await fs.writeFile(pkgPath, pkg, 'utf8');
  }
  \<close>
\<close>

definition pkgPath :: "path \<Rightarrow> path" where
  "pkgPath targetDir = targetDir @ [js ''package.json'']"

definition rewriteManifest ::
  "(jsstring \<Rightarrow> jsstring \<Rightarrow> jsstring) \<Rightarrow> jsstring \<Rightarrow> path \<Rightarrow> unit prog" where
  "rewriteManifest rewriteText projectName targetDir =
     andThen (pathExists (pkgPath targetDir)) (\<lambda>present.
       if present then
         andThen (readFile (pkgPath targetDir)) (\<lambda>pkg.
           writeFile (pkgPath targetDir) (rewriteText projectName pkg))
       else ret ())"

definition rewriteManifest_index :: "env \<Rightarrow> jsstring \<Rightarrow> path \<Rightarrow> unit prog" where
  "rewriteManifest_index e = rewriteManifest (rewriteText_index (caseTable e))"

definition rewriteManifest_part000 :: "env \<Rightarrow> jsstring \<Rightarrow> path \<Rightarrow> unit prog" where
  "rewriteManifest_part000 e = rewriteManifest (rewriteText_part000 (caseTable e))"

subsection \<open>Dependency installer\<close>

text \<open>
  src/bin/index.js always runs \<open>npm install\<close>:
  \<^verbatim>\<open>
  if (options.install) {
      console.log('Installing dependencies with npm...');
      try {
          await execa('npm', ['install'], { cwd: targetDir, stdio: 'inherit' });
          console.log('Dependencies installed.');
      } catch (err) {
          console.error('npm install failed. You can run it manually inside the new project.');
          throw err;
      }
  } else { console.log('Skipping dependency install.'); }
  \<close>
  The dynamic import of the execa module, here and in the version-control stage, is taken
  to succeed.
\<close>

definition installDependencies_index :: "env \<Rightarrow> options \<Rightarrow> path \<Rightarrow> unit prog" where
  "installDependencies_index e opts targetDir =
     (if install opts then
        andThen (say (Log (js ''Installing dependencies with npm...''))) (\<lambda>_.
        tryCatch
          (andThen (execa e (js ''npm'') [js ''install''] targetDir) (\<lambda>_.
           say (Log (js ''Dependencies installed.''))))
          (\<lambda>err.
             andThen
               (say (Error
                  (js ''npm install failed. You can run it manually inside the new project.'')))
               (\<lambda>_. throwErr err)))
      else say (Log (js ''Skipping dependency install.'')))"

text \<open>
  src/unnamed/part_000:
  \<^verbatim>\<open>
  async function detectInstaller() {
      try { await execa('pnpm', ['--version']); return 'pnpm'; } catch {}
      try { await execa('yarn', ['--version']); return 'yarn'; } catch {}
      return 'npm';
  }
  \<close>
  A probe runs in the working directory of the process. \<open>Some\<close> stands for the
  \<open>return\<close> inside a \<open>try\<close> block.
\<close>

definition probe :: "env \<Rightarrow> jsstring \<Rightarrow> jsstring option prog" where
  "probe e cmd =
     tryCatch (andThen (execa e cmd [js ''--version''] (cwd e)) (\<lambda>_. ret (Some cmd)))
       (\<lambda>_. ret None)"

definition detectInstaller :: "env \<Rightarrow> jsstring prog" where
  "detectInstaller e =
     andThen (probe e (js ''pnpm'')) (\<lambda>r.
       case r of
         Some found \<Rightarrow> ret found
       | None \<Rightarrow>
           andThen (probe e (js ''yarn'')) (\<lambda>r'.
             case r' of
               Some found \<Rightarrow> ret found
             | None \<Rightarrow> ret (js ''npm'')))"

text \<open>
  \<^verbatim>\<open>
  if (options.install) {
      const installer = await detectInstaller();
      const installArgs = installer === 'yarn' ? [] : ['install'];
      console.log(`Installing dependencies with ${installer}...`);
      try {
          await execa(installer, installArgs, { cwd: targetDir, stdio: 'inherit' });
          console.log('Dependencies installed.');
      } catch (err) {
          console.error('Package installation failed. ...');
          throw err;
      }
  } else { console.log('Skipping dependency install.'); }
  \<close>
\<close>

definition installDependencies_part000 :: "env \<Rightarrow> options \<Rightarrow> path \<Rightarrow> unit prog" where
  "installDependencies_part000 e opts targetDir =
     (if install opts then
        andThen (detectInstaller e) (\<lambda>installer.
        andThen
          (say (Log (js ''Installing dependencies with '' @ installer @ js ''...''))) (\<lambda>_.
        tryCatch
          (andThen
             (execa e installer (if installer = js ''yarn'' then [] else [js ''install''])
                targetDir) (\<lambda>_.
           say (Log (js ''Dependencies installed.''))))
          (\<lambda>err.
             andThen
               (say (Error (js ''Package installation failed. You can run the installer manually inside the new project.'')))
               (\<lambda>_. throwErr err))))
      else say (Log (js ''Skipping dependency install.'')))"

subsection \<open>Version-control initializer\<close>

text \<open>
  \<^verbatim>\<open>
  if (!options.noGit) {
      try {
          await execa('git', ['init'], { cwd: targetDir });
          await execa('git', ['add', '.'], { cwd: targetDir });
          try {
              await execa('git', ['commit', '-m', 'chore: initial commit'], { cwd: targetDir });
              console.log('Initialized git repository and made initial commit.');
          } catch {
              console.log('Initialized git repository (commit skipped ...).');
          }
      } catch {
          console.log('Git init failed (git may be missing). Continuing without git.');
      }
  } else { console.log('Skipping git initialization (--no-git).'); }
  \<close>
  The two files print the dash of the skipped-commit message with different code units;
  the message is the parameter \<open>skipped\<close>.
\<close>

definition commitSkipped_index :: jsstring where
  "commitSkipped_index =
     js ''Initialized git repository (commit skipped '' @ [0x2014]
       @ js '' git user may not be configured).''"

definition commitSkipped_part000 :: jsstring where
  "commitSkipped_part000 =
     js ''Initialized git repository (commit skipped '' @ [0xE2, 0x20AC, 0x201D]
       @ js '' git user may not be configured).''"

definition gitInit :: "env \<Rightarrow> options \<Rightarrow> path \<Rightarrow> jsstring \<Rightarrow> unit prog" where
  "gitInit e opts targetDir skipped =
     (if \<not> noGit opts then
        tryCatch
          (andThen (execa e (js ''git'') [js ''init''] targetDir) (\<lambda>_.
           andThen (execa e (js ''git'') [js ''add'', js ''.''] targetDir) (\<lambda>_.
           tryCatch
             (andThen
                (execa e (js ''git'') [js ''commit'', js ''-m'', js ''chore: initial commit'']
                   targetDir) (\<lambda>_.
              say (Log (js ''Initialized git repository and made initial commit.''))))
             (\<lambda>_. say (Log skipped)))))
          (\<lambda>_. say (Log (js ''Git init failed (git may be missing). Continuing without git.'')))
      else say (Log (js ''Skipping git initialization (--no-git).'')))"

subsection \<open>Final summary\<close>

definition nextSteps :: "options \<Rightarrow> jsstring \<Rightarrow> jsstring" where
  "nextSteps opts projectName =
     nl @ js ''Next steps:'' @ nl @ js ''  1) cd '' @ projectName @ nl @ js ''  2) ''
       @ (if install opts then []
          else js ''npm install  (if you skipped installation)'' @ nl @ js ''  '')
       @ js ''3) npm run dev  (or your start script)'' @ nl"

definition summary :: "options \<Rightarrow> jsstring \<Rightarrow> unit prog" where
  "summary opts projectName =
     andThen (say (Log (nl @ js ''Done!''))) (\<lambda>_. say (Log (nextSteps opts projectName)))"

section \<open>The command action\<close>

text \<open>
  The body of the action runs the stages in order inside one \<open>try\<close> block, whose handler
  prints the error and ends the process with code 1:
  \<^verbatim>\<open>
  } catch (err) { console.error('Error:', err?.message || err); process.exit(1); }
  \<close>
\<close>

definition topLevel :: "unit prog \<Rightarrow> unit prog" where
  "topLevel body = tryCatch body (\<lambda>err. andThen (say (ErrorReport err)) (\<lambda>_. processExit 1))"

definition fromGit :: "env \<Rightarrow> options \<Rightarrow> jsstring \<Rightarrow> path \<Rightarrow> jsstring \<Rightarrow> unit prog" where
  "fromGit e opts projectName targetDir skipped =
     andThen (gitInit e opts targetDir skipped) (\<lambda>_. summary opts projectName)"

definition fromFetch_index :: "env \<Rightarrow> options \<Rightarrow> jsstring \<Rightarrow> path \<Rightarrow> unit prog" where
  "fromFetch_index e opts projectName targetDir =
     andThen (fetchTemplate_index e opts targetDir) (\<lambda>_.
     andThen (rewriteManifest_index e projectName targetDir) (\<lambda>_.
     andThen (installDependencies_index e opts targetDir) (\<lambda>_.
     fromGit e opts projectName targetDir commitSkipped_index)))"

definition fromFetch_part000 :: "env \<Rightarrow> options \<Rightarrow> jsstring \<Rightarrow> path \<Rightarrow> unit prog" where
  "fromFetch_part000 e opts projectName targetDir =
     andThen (fetchTemplate_part000 e opts targetDir) (\<lambda>_.
     andThen (rewriteManifest_part000 e projectName targetDir) (\<lambda>_.
     andThen (installDependencies_part000 e opts targetDir) (\<lambda>_.
     fromGit e opts projectName targetDir commitSkipped_part000)))"

definition creating :: "jsstring \<Rightarrow> jsstring" where
  "creating projectName = nl @ js ''Creating project '' @ projectName @ js ''...'' @ nl"

definition fromGuard ::
  "env \<Rightarrow> jsstring \<Rightarrow> (jsstring \<Rightarrow> path \<Rightarrow> unit prog) \<Rightarrow> unit prog" where
  "fromGuard e projectName rest =
     andThen (guardTargetDir e projectName (resolve e (cwd e) projectName)) (\<lambda>_.
     andThen (say (Log (creating projectName))) (\<lambda>_.
     rest projectName (resolve e (cwd e) projectName)))"

definition action_index :: "env \<Rightarrow> jsstring option \<Rightarrow> options \<Rightarrow> unit prog" where
  "action_index e arg opts =
     topLevel
       (andThen (resolveProjectName e arg) (\<lambda>projectName.
        fromGuard e projectName (fromFetch_index e opts)))"

definition action_part000 :: "env \<Rightarrow> jsstring option \<Rightarrow> options \<Rightarrow> unit prog" where
  "action_part000 e arg opts =
     topLevel
       (andThen (resolveProjectName e arg) (\<lambda>projectName.
        fromGuard e projectName (fromFetch_part000 e opts)))"

text \<open>
  The exit code of the process: 0 when the action returns, the argument of
  \<open>process.exit\<close> otherwise (an error that escaped would reach \<open>main().catch\<close>, which exits
  with 1).
\<close>

definition exitCode :: "unit outcome \<Rightarrow> nat" where
  "exitCode r = (case r of Return _ \<Rightarrow> 0 | Throw _ \<Rightarrow> 1 | Exit n \<Rightarrow> n)"

text \<open>
  The stages before the version-control initializer, as one step that returns the project
  name and the target directory.
\<close>

definition untilGit ::
  "env \<Rightarrow> jsstring option \<Rightarrow> (path \<Rightarrow> jsstring prog) \<Rightarrow> (jsstring \<Rightarrow> path \<Rightarrow> unit prog)
     \<Rightarrow> (path \<Rightarrow> unit prog) \<Rightarrow> (jsstring \<times> path) prog" where
  "untilGit e arg fetch rewrite inst =
     andThen (resolveProjectName e arg) (\<lambda>projectName.
     andThen (guardTargetDir e projectName (resolve e (cwd e) projectName)) (\<lambda>_.
     andThen (say (Log (creating projectName))) (\<lambda>_.
     andThen (fetch (resolve e (cwd e) projectName)) (\<lambda>_.
     andThen (rewrite projectName (resolve e (cwd e) projectName)) (\<lambda>_.
     andThen (inst (resolve e (cwd e) projectName)) (\<lambda>_.
     ret (projectName, resolve e (cwd e) projectName)))))))"

definition untilGit_index :: "env \<Rightarrow> jsstring option \<Rightarrow> options \<Rightarrow> (jsstring \<times> path) prog" where
  "untilGit_index e arg opts =
     untilGit e arg (fetchTemplate_index e opts) (rewriteManifest_index e)
       (installDependencies_index e opts)"

definition untilGit_part000 :: "env \<Rightarrow> jsstring option \<Rightarrow> options \<Rightarrow> (jsstring \<times> path) prog" where
  "untilGit_part000 e arg opts =
     untilGit e arg (fetchTemplate_part000 e opts) (rewriteManifest_part000 e)
       (installDependencies_part000 e opts)"

text \<open>
  The fetch attempts of a trace: the specifications handed to degit, in order.
\<close>

fun attempts :: "event list \<Rightarrow> jsstring list" where
  "attempts [] = []"
| "attempts (Degit spec # es) = spec # attempts es"
| "attempts (ev # es) = attempts es"

section \<open>Example runs\<close>

text \<open>
  A runtime whose case tables leave code units beyond ASCII alone, a working directory
  \<open>/work\<close> in which a relative name resolves to a child, a fetch that writes a manifest, and
  no subprocess that can be started (neither git nor a package manager is installed).
\<close>

definition demoTable :: "jsstring \<Rightarrow> nat \<Rightarrow> jsstring" where
  "demoTable s i = [s ! i]"

definition demoManifest :: jsstring where
  "demoManifest = js ''n=__PROJECT_NAME__;s=__PROJECT_SLUG__;t=convexity-n-layer-template''"

definition demoEnv :: env where
  "demoEnv =
     \<lparr>caseTable = demoTable,
      cwd = [js ''work''],
      resolve = (\<lambda>d n. d @ [n]),
      textAnswers = [],
      confirmAnswer = Some False,
      degitFails = (\<lambda>spec. None),
      cloneResult = (\<lambda>spec dir fs. (None, (pkgPath dir, File demoManifest) # (dir, Dir) # fs)),
      execaResult = (\<lambda>cmd args dir fs. (Some (JsError (js ''ENOENT'')), fs))\<rparr>"

definition demoOptions :: options where
  "demoOptions =
     \<lparr>template = Str (js ''template''), repo = Str (js ''github:owner/repo''),
      install = False, noGit = False\<rparr>"

definition emptyWorld :: world where
  "emptyWorld = \<lparr>files = [], trace = []\<rparr>"

definition occupiedWorld :: world where
  "occupiedWorld =
     \<lparr>files = [([js ''work'', js ''app''], Dir),
               ([js ''work'', js ''app'', js ''README.md''], File (js ''hello''))],
      trace = []\<rparr>"

text \<open>The world behind a successful fetch into \<open>/work/app\<close>.\<close>

definition fetchedWorld :: world where
  "fetchedWorld =
     \<lparr>files = [([js ''work'', js ''app'', js ''package.json''], File demoManifest),
               ([js ''work'', js ''app''], Dir)],
      trace = []\<rparr>"

text \<open>The same environment with a fetch that always fails, and a descriptor without prefix.\<close>

definition failingFetchEnv :: env where
  "failingFetchEnv =
     demoEnv\<lparr>cloneResult := (\<lambda>spec dir fs. (Some (JsError (js ''could not download'')), fs))\<rparr>"

definition plainOptions :: options where
  "plainOptions = demoOptions\<lparr>repo := Str (js ''owner/repo'')\<rparr>"

section \<open>Properties of slugify\<close>

lemma slugClass_not_ws: "slugClass c \<Longrightarrow> \<not> isWhiteSpace c"
  unfolding slugClass_def isWhiteSpace_def by (auto simp: word_le_nat_alt)

lemma slugClass_ascii: "slugClass c \<Longrightarrow> c < 0x80"
  unfolding slugClass_def by (auto simp: word_le_nat_alt word_less_nat_alt)

lemma slugClass_lower: "slugClass c \<Longrightarrow> asciiLower c = c"
  unfolding slugClass_def asciiLower_def by (auto simp: word_le_nat_alt)

lemma slugClass_not_upper: "slugClass c \<Longrightarrow> \<not> isUpperAscii c"
  unfolding slugClass_def isUpperAscii_def by (auto simp: word_le_nat_alt)

lemma slugClass_hyphen: "slugClass hyphen"
  by (simp add: slugClass_def hyphen_def)

lemma replaceRuns_class:
  "list_all Q s \<Longrightarrow> Q r \<Longrightarrow> list_all Q (replaceRuns P r s)"
proof (induction P r s rule: replaceRuns.induct)
  case (1 P r)
  then show ?case by simp
next
  case (2 P r c cs)
  have "list_all Q (dropWhile P cs)"
    using 2(3) by (auto simp: list_all_iff dest: set_dropWhileD)
  with 2 show ?case by auto
qed

lemma stripEdge_class: "list_all Q s \<Longrightarrow> list_all Q (stripEdge b s)"
  by (induction b s rule: stripEdge.induct) auto

lemma replaceRuns_head:
  "replaceRuns P r s = y # ys \<Longrightarrow> s \<noteq> [] \<and> y = (if P (hd s) then r else hd s)"
  by (cases s) (auto split: if_splits)

lemma dropWhile_head: "dropWhile P cs = y # ys \<Longrightarrow> \<not> P y"
  by (metis dropWhile_eq_Cons_conv)

lemma collapse_no_adjacent:
  "\<not> adjacentHyphens (replaceRuns (\<lambda>c. c = hyphen) hyphen s)"
proof (induction "\<lambda>c. c = hyphen" hyphen s rule: replaceRuns.induct)
  case 1
  then show ?case by simp
next
  case (2 c cs)
  show ?case
  proof (cases "c = hyphen")
    case True
    let ?d = "dropWhile (\<lambda>c. c = hyphen) cs"
    have ih: "\<not> adjacentHyphens (replaceRuns (\<lambda>c. c = hyphen) hyphen ?d)"
      using 2(1) True by simp
    show ?thesis
    proof (cases "replaceRuns (\<lambda>c. c = hyphen) hyphen ?d")
      case Nil
      with True show ?thesis by simp
    next
      case (Cons y ys)
      from replaceRuns_head[OF Cons]
      have ne: "?d \<noteq> []" and y: "y = (if hd ?d = hyphen then hyphen else hd ?d)"
        by auto
      from ne obtain z zs where d: "?d = z # zs" by (cases ?d) auto
      from dropWhile_head[OF d] have "z \<noteq> hyphen" .
      with y d have "y \<noteq> hyphen" by simp
      with ih Cons True show ?thesis by simp
    qed
  next
    case False
    have ih: "\<not> adjacentHyphens (replaceRuns (\<lambda>c. c = hyphen) hyphen cs)"
      using 2(2) False by simp
    show ?thesis
    proof (cases "replaceRuns (\<lambda>c. c = hyphen) hyphen cs")
      case Nil
      with False show ?thesis by simp
    next
      case (Cons y ys)
      with ih False show ?thesis by simp
    qed
  qed
qed

lemma stripEdge_False:
  "stripEdge False s = (if s \<noteq> [] \<and> last s = hyphen then butlast s else s)"
  by (induction s) auto

lemma adjacent_butlast: "\<not> adjacentHyphens s \<Longrightarrow> \<not> adjacentHyphens (butlast s)"
  by (induction s rule: adjacentHyphens.induct) (auto split: if_splits)

lemma adjacent_tl: "\<not> adjacentHyphens (c # cs) \<Longrightarrow> \<not> adjacentHyphens cs"
  by (cases cs) auto

lemma adjacent_last:
  "\<not> adjacentHyphens s \<Longrightarrow> s \<noteq> [] \<Longrightarrow> last s = hyphen \<Longrightarrow> butlast s \<noteq> []
   \<Longrightarrow> last (butlast s) \<noteq> hyphen"
  by (induction s rule: adjacentHyphens.induct) (auto split: if_splits)

lemma endsWithHyphen_iff: "endsWithHyphen s \<longleftrightarrow> s \<noteq> [] \<and> last s = hyphen"
  by (cases s rule: rev_cases) (auto simp: endsWithHyphen_def startsWithHyphen_def)

lemma stripEdge_False_props:
  assumes "\<not> adjacentHyphens s"
  shows "\<not> adjacentHyphens (stripEdge False s)" and "\<not> endsWithHyphen (stripEdge False s)"
  using assms adjacent_butlast[OF assms] adjacent_last[OF assms]
  by (auto simp: stripEdge_False endsWithHyphen_iff)

lemma stripEdge_False_start:
  "\<not> adjacentHyphens s \<Longrightarrow> \<not> startsWithHyphen s \<Longrightarrow> \<not> startsWithHyphen (stripEdge False s)"
  by (cases s) (auto simp: startsWithHyphen_def split: list.splits)

lemma stripEdge_True_props:
  assumes "\<not> adjacentHyphens s"
  shows "\<not> adjacentHyphens (stripEdge True s) \<and> \<not> endsWithHyphen (stripEdge True s)
         \<and> \<not> startsWithHyphen (stripEdge True s)"
proof (cases s)
  case Nil
  then show ?thesis by (simp add: endsWithHyphen_def startsWithHyphen_def)
next
  case (Cons c cs)
  show ?thesis
  proof (cases "c = hyphen")
    case True
    have cs: "\<not> adjacentHyphens cs" using assms Cons adjacent_tl by blast
    have "\<not> startsWithHyphen cs" using assms Cons True
      by (cases cs) (auto simp: startsWithHyphen_def)
    with cs stripEdge_False_props[OF cs] stripEdge_False_start[OF cs] Cons True
    show ?thesis by simp
  next
    case False
    have eq: "stripEdge True s = stripEdge False s" using Cons False by simp
    have "\<not> startsWithHyphen s" using Cons False by (simp add: startsWithHyphen_def)
    with stripEdge_False_props[OF assms] stripEdge_False_start[OF assms] eq
    show ?thesis by simp
  qed
qed

lemma trim_id: "list_all (\<lambda>c. \<not> isWhiteSpace c) s \<Longrightarrow> trim s = s"
proof -
  assume a: "list_all (\<lambda>c. \<not> isWhiteSpace c) s"
  have d: "dropWhile isWhiteSpace xs = xs" if "\<forall>x\<in>set xs. \<not> isWhiteSpace x" for xs
    using that by (cases xs) auto
  from a have "dropWhile isWhiteSpace s = s" by (intro d) (simp add: list_all_iff)
  moreover from a have "dropWhile isWhiteSpace (rev s) = rev s"
    by (intro d) (simp add: list_all_iff)
  ultimately show ?thesis by (simp add: trim_def)
qed

lemma concat_singletons: "concat (map (\<lambda>i. [f i]) xs) = map f xs"
  by (induction xs) auto

lemma toLowerCase_id:
  assumes "list_all slugClass s"
  shows "toLowerCase tbl s = s"
proof -
  have "map (\<lambda>i. if s ! i < 0x80 then [asciiLower (s ! i)] else tbl s i) [0..<length s]
        = map (\<lambda>i. [s ! i]) [0..<length s]"
    using assms by (auto simp: list_all_length slugClass_ascii slugClass_lower)
  then have "toLowerCase tbl s = concat (map (\<lambda>i. [s ! i]) [0..<length s])"
    unfolding toLowerCase_def by (rule arg_cong)
  then have "toLowerCase tbl s = map (\<lambda>i. s ! i) [0..<length s]"
    by (simp only: concat_singletons)
  then show ?thesis by (simp add: map_nth)
qed

lemma replaceRuns_none: "list_all (\<lambda>c. \<not> P c) s \<Longrightarrow> replaceRuns P r s = s"
  by (induction s) auto

lemma mapClass_id:
  "list_all slugClass s \<Longrightarrow> map (\<lambda>c. if slugClass c then c else hyphen) s = s"
  by (induction s) auto

lemma collapse_id:
  "\<not> adjacentHyphens s \<Longrightarrow> replaceRuns (\<lambda>c. c = hyphen) hyphen s = s"
proof (induction s rule: adjacentHyphens.induct)
  case (1 a b cs)
  then show ?case by (cases "a = hyphen") auto
qed auto

lemma stripEdge_id:
  "\<not> startsWithHyphen s \<Longrightarrow> \<not> endsWithHyphen s \<Longrightarrow> stripEdge True s = s"
proof -
  assume a: "\<not> startsWithHyphen s" and b: "\<not> endsWithHyphen s"
  have "stripEdge True s = stripEdge False s"
    using a by (cases s) (auto simp: startsWithHyphen_def)
  also have "\<dots> = s" using b by (auto simp: stripEdge_False endsWithHyphen_iff)
  finally show ?thesis .
qed

lemma slugify_shaped: "slugShaped (slugify tbl s)"
proof -
  let ?u = "map (\<lambda>c. if slugClass c then c else hyphen)
              (replaceRuns isWhiteSpace hyphen (toLowerCase tbl (trim s)))"
  let ?t = "replaceRuns (\<lambda>c. c = hyphen) hyphen ?u"
  have "list_all slugClass ?u" by (auto simp: list_all_iff slugClass_hyphen)
  then have "list_all slugClass ?t" by (rule replaceRuns_class) (rule slugClass_hyphen)
  then have c: "list_all slugClass (stripEdge True ?t)" by (rule stripEdge_class)
  have "\<not> adjacentHyphens ?t" by (rule collapse_no_adjacent)
  from stripEdge_True_props[OF this] c show ?thesis
    by (simp add: slugShaped_def slugify_def)
qed

lemma slugify_fixed: "slugShaped r \<Longrightarrow> slugify tbl r = r"
proof -
  assume s: "slugShaped r"
  then have cls: "list_all slugClass r" by (simp add: slugShaped_def)
  then have nws: "list_all (\<lambda>c. \<not> isWhiteSpace c) r"
    by (auto simp: list_all_iff slugClass_not_ws)
  have 1: "trim r = r" by (rule trim_id[OF nws])
  have 2: "toLowerCase tbl r = r" by (rule toLowerCase_id[OF cls])
  have 3: "replaceRuns isWhiteSpace hyphen r = r" by (rule replaceRuns_none[OF nws])
  have 4: "map (\<lambda>c. if slugClass c then c else hyphen) r = r" by (rule mapClass_id[OF cls])
  have 5: "replaceRuns (\<lambda>c. c = hyphen) hyphen r = r"
    using s by (intro collapse_id) (simp add: slugShaped_def)
  have 6: "stripEdge True r = r" using s by (intro stripEdge_id) (simp_all add: slugShaped_def)
  show ?thesis by (simp add: slugify_def 1 2 3 4 5 6)
qed

lemma slugify_example:
  "slugify tbl (js ''My Cool App!!'') = js ''my-cool-app''"
  by (simp add: slugify_def js_def trim_def toLowerCase_def isWhiteSpace_def asciiLower_def
      slugClass_def hyphen_def upt_rec)

text \<open>
  Claim C1. For every input string and whatever the case tables of the runtime are, the slug
  is the result of trimming, lowercasing, replacing whitespace runs by a hyphen, replacing
  every code unit outside \<open>[a-z0-9-_.]\<close> by a hyphen, collapsing hyphen runs and deleting a
  leading and a trailing hyphen. It consists of code units of \<open>[a-z0-9-_.]\<close> only, so it has
  no capital letter (lowercasing leaves it unchanged) and no whitespace; it neither starts
  nor ends with a hyphen and has no two hyphens in a row. The slug of \<open>My Cool App!!\<close> is
  \<open>my-cool-app\<close>.
\<close>

theorem slugify_slug_form:
  "slugify tbl s =
     stripEdge True (replaceRuns (\<lambda>c. c = hyphen) hyphen
       (map (\<lambda>c. if slugClass c then c else hyphen)
         (replaceRuns isWhiteSpace hyphen (toLowerCase tbl (trim s)))))
   \<and> list_all slugClass (slugify tbl s)
   \<and> list_all (\<lambda>c. \<not> isUpperAscii c) (slugify tbl s)
   \<and> toLowerCase tbl (slugify tbl s) = slugify tbl s
   \<and> list_all (\<lambda>c. \<not> isWhiteSpace c) (slugify tbl s)
   \<and> \<not> startsWithHyphen (slugify tbl s)
   \<and> \<not> endsWithHyphen (slugify tbl s)
   \<and> \<not> adjacentHyphens (slugify tbl s)
   \<and> slugify tbl (js ''My Cool App!!'') = js ''my-cool-app''"
proof -
  have sh: "slugShaped (slugify tbl s)" by (rule slugify_shaped)
  then have cls: "list_all slugClass (slugify tbl s)" by (simp add: slugShaped_def)
  have up: "list_all (\<lambda>c. \<not> isUpperAscii c) (slugify tbl s)"
    using cls by (auto simp: list_all_iff slugClass_not_upper)
  have ws: "list_all (\<lambda>c. \<not> isWhiteSpace c) (slugify tbl s)"
    using cls by (auto simp: list_all_iff slugClass_not_ws)
  have lo: "toLowerCase tbl (slugify tbl s) = slugify tbl s"
    by (rule toLowerCase_id[OF cls])
  have df: "slugify tbl s =
     stripEdge True (replaceRuns (\<lambda>c. c = hyphen) hyphen
       (map (\<lambda>c. if slugClass c then c else hyphen)
         (replaceRuns isWhiteSpace hyphen (toLowerCase tbl (trim s)))))"
    by (simp add: slugify_def)
  from sh have e: "\<not> startsWithHyphen (slugify tbl s)" "\<not> endsWithHyphen (slugify tbl s)"
    "\<not> adjacentHyphens (slugify tbl s)" by (simp_all add: slugShaped_def)
  show ?thesis
    using df cls up lo ws e slugify_example by blast
qed

text \<open>
  Claim C9. slugify is idempotent: the slug of a slug is that slug.
\<close>

theorem slugify_idempotent: "slugify tbl (slugify tbl s) = slugify tbl s"
  by (rule slugify_fixed) (rule slugify_shaped)

section \<open>Properties of the stages\<close>

lemmas prog_defs = andThen_def tryCatch_def ret_def throwErr_def processExit_def say_def

lemma andThen_assoc: "andThen (andThen m f) g = andThen m (\<lambda>x. andThen (f x) g)"
  by (rule ext) (simp add: andThen_def split: prod.splits outcome.splits)

lemma andThen_ret: "andThen (ret x) f = f x"
  by (rule ext) (simp add: andThen_def ret_def)

lemma action_index_untilGit:
  "action_index e arg opts =
     topLevel (andThen (untilGit_index e arg opts)
       (\<lambda>(n, d). fromGit e opts n d commitSkipped_index))"
  by (simp add: action_index_def untilGit_index_def untilGit_def fromGuard_def
      fromFetch_index_def andThen_assoc andThen_ret)

lemma action_part000_untilGit:
  "action_part000 e arg opts =
     topLevel (andThen (untilGit_part000 e arg opts)
       (\<lambda>(n, d). fromGit e opts n d commitSkipped_part000))"
  by (simp add: action_part000_def untilGit_part000_def untilGit_def fromGuard_def
      fromFetch_part000_def andThen_assoc andThen_ret)

lemma gitInit_returns: "fst (gitInit e opts targetDir skipped w) = Return ()"
  by (auto simp: gitInit_def execa_def prog_defs split: prod.splits option.splits)

lemma gitInit_trace:
  "trace (snd (gitInit e opts d skipped w)) = trace w @
     (if noGit opts then [Log (js ''Skipping git initialization (--no-git).'')]
      else if fst (execaResult e (js ''git'') [js ''init''] d (files w)) \<noteq> None
      then [Execa (js ''git'') [js ''init''] d,
            Log (js ''Git init failed (git may be missing). Continuing without git.'')]
      else if fst (execaResult e (js ''git'') [js ''add'', js ''.''] d
                (snd (execaResult e (js ''git'') [js ''init''] d (files w)))) \<noteq> None
      then [Execa (js ''git'') [js ''init''] d, Execa (js ''git'') [js ''add'', js ''.''] d,
            Log (js ''Git init failed (git may be missing). Continuing without git.'')]
      else if fst (execaResult e (js ''git'')
                [js ''commit'', js ''-m'', js ''chore: initial commit''] d
                (snd (execaResult e (js ''git'') [js ''add'', js ''.''] d
                  (snd (execaResult e (js ''git'') [js ''init''] d (files w)))))) \<noteq> None
      then [Execa (js ''git'') [js ''init''] d, Execa (js ''git'') [js ''add'', js ''.''] d,
            Execa (js ''git'') [js ''commit'', js ''-m'', js ''chore: initial commit''] d,
            Log skipped]
      else [Execa (js ''git'') [js ''init''] d, Execa (js ''git'') [js ''add'', js ''.''] d,
            Execa (js ''git'') [js ''commit'', js ''-m'', js ''chore: initial commit''] d,
            Log (js ''Initialized git repository and made initial commit.'')])"
  by (auto simp: gitInit_def execa_def prog_defs emit_def split: prod.splits option.splits)

lemma fromGit_result:
  "topLevel (fromGit e opts n d skipped) w =
     (Return (), emit (Log (nextSteps opts n)) (emit (Log (nl @ js ''Done!''))
        (snd (gitInit e opts d skipped w))))"
proof -
  obtain w' where g: "gitInit e opts d skipped w = (Return (), w')"
    using gitInit_returns[of e opts d skipped w] by (cases "gitInit e opts d skipped w") auto
  show ?thesis
    by (simp add: topLevel_def fromGit_def summary_def prog_defs g)
qed

lemmas stage_defs = untilGit_index_def untilGit_part000_def untilGit_def resolveProjectName_def
  guardTargetDir_def pathExists_def readdir_def fetchTemplate_index_def fetchTemplate_part000_def
  tryClone_def degit_def clone_def rewriteManifest_index_def rewriteManifest_part000_def
  rewriteManifest_def readFile_def writeFile_def installDependencies_index_def
  installDependencies_part000_def
  templatePath_index_def templatePath_part000_def repoBase_def repoSpec_part000_def
  cloneWithFallback_def cloneOnce_def

lemma demo_reaches_git_index: "fst (untilGit_index demoEnv (Some (js ''app'')) demoOptions emptyWorld)
   = Return (js ''app'', [js ''work'', js ''app''])"
  by (simp add: stage_defs prog_defs demoEnv_def demoOptions_def emptyWorld_def emit_def js_def pkgPath_def)

lemma demo_reaches_git_part000: "fst (untilGit_part000 demoEnv (Some (js ''app'')) demoOptions emptyWorld)
   = Return (js ''app'', [js ''work'', js ''app''])"
  by (simp add: stage_defs prog_defs demoEnv_def demoOptions_def emptyWorld_def emit_def js_def pkgPath_def)

text \<open>
  Claim C10. detectInstaller probes pnpm first and yarn only when the pnpm probe failed; it
  returns the name of the first probe that succeeds and \<open>npm\<close> when both fail, and no
  other value.
\<close>

theorem detectInstaller_order:
  "fst (detectInstaller e w) =
     Return
       (if fst (execaResult e (js ''pnpm'') [js ''--version''] (cwd e) (files w)) = None
        then js ''pnpm''
        else if fst (execaResult e (js ''yarn'') [js ''--version''] (cwd e)
                  (snd (execaResult e (js ''pnpm'') [js ''--version''] (cwd e) (files w)))) = None
        then js ''yarn''
        else js ''npm'')
   \<and> trace (snd (detectInstaller e w)) =
       trace w @
       (if fst (execaResult e (js ''pnpm'') [js ''--version''] (cwd e) (files w)) = None
        then [Execa (js ''pnpm'') [js ''--version''] (cwd e)]
        else [Execa (js ''pnpm'') [js ''--version''] (cwd e),
              Execa (js ''yarn'') [js ''--version''] (cwd e)])
   \<and> fst (detectInstaller e w) \<in> {Return (js ''pnpm''), Return (js ''yarn''), Return (js ''npm'')}"
  by (auto simp: detectInstaller_def probe_def execa_def prog_defs emit_def
      split: prod.splits option.splits)

text \<open>
  Claim C8. When the target directory has no package manifest after the fetch, the manifest
  rewriter only asks whether the file exists: it reads nothing, writes nothing, leaves the
  file system as it is and returns without an error, so the run goes on.
\<close>

theorem manifest_absent:
  "map_of (files w) (pkgPath targetDir) = None \<Longrightarrow>
   rewriteManifest_index e projectName targetDir w
     = (Return (), emit (PathExists (pkgPath targetDir)) w)
   \<and> rewriteManifest_part000 e projectName targetDir w
     = (Return (), emit (PathExists (pkgPath targetDir)) w)"
  by (simp add: rewriteManifest_index_def rewriteManifest_part000_def rewriteManifest_def
      pathExists_def prog_defs emit_def)


theorem manifest_absent_witness:
  "rewriteManifest_index demoEnv (js ''app'') [js ''work'', js ''app''] emptyWorld
     = (Return (), emit (PathExists (pkgPath [js ''work'', js ''app''])) emptyWorld)
   \<and> rewriteManifest_part000 demoEnv (js ''app'') [js ''work'', js ''app''] emptyWorld
     = (Return (), emit (PathExists (pkgPath [js ''work'', js ''app''])) emptyWorld)"
  using manifest_absent[of emptyWorld "[js ''work'', js ''app'']" demoEnv "js ''app''"]
  by (simp add: emptyWorld_def)

lemma resolveProjectName_files: "files (snd (resolveProjectName e arg w)) = files w"
  by (auto simp: resolveProjectName_def promptProjectName_def prog_defs emit_def
      split: option.splits)

lemma resolveProjectName_cases:
  "(\<exists>n. fst (resolveProjectName e arg w) = Return n) \<or> fst (resolveProjectName e arg w) = Exit 1"
  by (auto simp: resolveProjectName_def promptProjectName_def prog_defs emit_def
      split: option.splits)

lemma guard_declined:
  assumes "map_of (files w) d = Some Dir" and "listing (files w) d \<noteq> []"
    and "confirmAnswer e = None \<or> confirmAnswer e = Some False"
  shows "guardTargetDir e n d w =
     (Exit 1, w\<lparr>trace := trace w @
        [PathExists d, Readdir d,
         AskConfirm (js ''Directory '' @ n @ js '' already exists and is not empty. Overwrite?''),
         Log (if confirmAnswer e = None then js ''Aborted.'' else js ''Aborting.'')]\<rparr>)"
  using assms
  by (auto simp: guardTargetDir_def confirmOverwrite_def pathExists_def readdir_def prog_defs
      emit_def)

lemma action_declined:
  assumes r: "fst (resolveProjectName e arg w) = Return n"
    and d: "map_of (files w) (resolve e (cwd e) n) = Some Dir"
    and l: "listing (files w) (resolve e (cwd e) n) \<noteq> []"
    and c: "confirmAnswer e = None \<or> confirmAnswer e = Some False"
  shows "topLevel (andThen (resolveProjectName e arg) (\<lambda>projectName.
           fromGuard e projectName rest)) w =
     (Exit 1, (snd (resolveProjectName e arg w))\<lparr>trace := trace (snd (resolveProjectName e arg w)) @
        [PathExists (resolve e (cwd e) n), Readdir (resolve e (cwd e) n),
         AskConfirm (js ''Directory '' @ n @ js '' already exists and is not empty. Overwrite?''),
         Log (if confirmAnswer e = None then js ''Aborted.'' else js ''Aborting.'')]\<rparr>)"
proof -
  obtain w1 where w1: "resolveProjectName e arg w = (Return n, w1)"
    using r by (cases "resolveProjectName e arg w") auto
  have f: "files w1 = files w" using resolveProjectName_files[of e arg w] w1 by simp
  have g: "guardTargetDir e n (resolve e (cwd e) n) w1 = (Exit 1, w1\<lparr>trace := trace w1 @
        [PathExists (resolve e (cwd e) n), Readdir (resolve e (cwd e) n),
         AskConfirm (js ''Directory '' @ n @ js '' already exists and is not empty. Overwrite?''),
         Log (if confirmAnswer e = None then js ''Aborted.'' else js ''Aborting.'')]\<rparr>)"
    by (rule guard_declined) (use d l c f in simp_all)
  show ?thesis
    by (simp add: topLevel_def fromGuard_def andThen_def tryCatch_def w1 g)
qed

text \<open>
  Claim C3. When the target directory exists with a non-empty listing and the overwrite
  confirmation is declined or cancelled, the process exits with code 1, the file system is
  what it was, and nothing but the existence test, the listing, the question and the abort
  notice happened: the directory is not removed.
\<close>

theorem declined_overwrite_keeps_directory:
  assumes "fst (resolveProjectName e arg w) = Return n"
    and "map_of (files w) (resolve e (cwd e) n) = Some Dir"
    and "listing (files w) (resolve e (cwd e) n) \<noteq> []"
    and "confirmAnswer e = None \<or> confirmAnswer e = Some False"
  shows "exitCode (fst (action_index e arg opts w)) = 1
       \<and> files (snd (action_index e arg opts w)) = files w
       \<and> trace (snd (action_index e arg opts w)) =
           trace (snd (resolveProjectName e arg w)) @
           [PathExists (resolve e (cwd e) n), Readdir (resolve e (cwd e) n),
            AskConfirm (js ''Directory '' @ n @ js '' already exists and is not empty. Overwrite?''),
            Log (if confirmAnswer e = None then js ''Aborted.'' else js ''Aborting.'')]
       \<and> exitCode (fst (action_part000 e arg opts w)) = 1
       \<and> files (snd (action_part000 e arg opts w)) = files w
       \<and> trace (snd (action_part000 e arg opts w)) = trace (snd (action_index e arg opts w))"
  unfolding action_index_def action_part000_def
  by (simp add: action_declined[OF assms] exitCode_def resolveProjectName_files)

theorem declined_overwrite_keeps_directory_witness:
  "exitCode (fst (action_index demoEnv (Some (js ''app'')) demoOptions occupiedWorld)) = 1
   \<and> files (snd (action_index demoEnv (Some (js ''app'')) demoOptions occupiedWorld))
       = files occupiedWorld
   \<and> exitCode (fst (action_part000 demoEnv (Some (js ''app'')) demoOptions occupiedWorld)) = 1
   \<and> files (snd (action_part000 demoEnv (Some (js ''app'')) demoOptions occupiedWorld))
       = files occupiedWorld"
  using declined_overwrite_keeps_directory[of demoEnv "Some (js ''app'')" occupiedWorld
      "js ''app''" demoOptions]
  by (simp add: resolveProjectName_def ret_def demoEnv_def occupiedWorld_def listing_def js_def)

text \<open>
  Claim C7. The version-control initializer always returns: a failed init, add or commit
  is answered by a printed notice. A run that reaches the stage therefore prints the final
  summary and ends with exit code 0.
\<close>

theorem git_stage_never_fatal:
  "fst (gitInit e opts d skipped w') = Return ()
   \<and> trace (snd (gitInit e opts d skipped w')) = trace w' @
     (if noGit opts then [Log (js ''Skipping git initialization (--no-git).'')]
      else if fst (execaResult e (js ''git'') [js ''init''] d (files w')) \<noteq> None
      then [Execa (js ''git'') [js ''init''] d,
            Log (js ''Git init failed (git may be missing). Continuing without git.'')]
      else if fst (execaResult e (js ''git'') [js ''add'', js ''.''] d
                (snd (execaResult e (js ''git'') [js ''init''] d (files w')))) \<noteq> None
      then [Execa (js ''git'') [js ''init''] d, Execa (js ''git'') [js ''add'', js ''.''] d,
            Log (js ''Git init failed (git may be missing). Continuing without git.'')]
      else if fst (execaResult e (js ''git'')
                [js ''commit'', js ''-m'', js ''chore: initial commit''] d
                (snd (execaResult e (js ''git'') [js ''add'', js ''.''] d
                  (snd (execaResult e (js ''git'') [js ''init''] d (files w')))))) \<noteq> None
      then [Execa (js ''git'') [js ''init''] d, Execa (js ''git'') [js ''add'', js ''.''] d,
            Execa (js ''git'') [js ''commit'', js ''-m'', js ''chore: initial commit''] d,
            Log skipped]
      else [Execa (js ''git'') [js ''init''] d, Execa (js ''git'') [js ''add'', js ''.''] d,
            Execa (js ''git'') [js ''commit'', js ''-m'', js ''chore: initial commit''] d,
            Log (js ''Initialized git repository and made initial commit.'')])
   \<and> exitCode (fst (topLevel (fromGit e opts n d skipped) w')) = 0
   \<and> (fst (untilGit_index e arg opts w) = Return (n, d) \<longrightarrow>
        action_index e arg opts w =
          (Return (), emit (Log (nextSteps opts n)) (emit (Log (nl @ js ''Done!''))
             (snd (gitInit e opts d commitSkipped_index (snd (untilGit_index e arg opts w))))))
        \<and> exitCode (fst (action_index e arg opts w)) = 0)
   \<and> (fst (untilGit_part000 e arg opts w) = Return (n, d) \<longrightarrow>
        action_part000 e arg opts w =
          (Return (), emit (Log (nextSteps opts n)) (emit (Log (nl @ js ''Done!''))
             (snd (gitInit e opts d commitSkipped_part000 (snd (untilGit_part000 e arg opts w))))))
        \<and> exitCode (fst (action_part000 e arg opts w)) = 0)"
proof -
  have a: "action_index e arg opts w =
          (Return (), emit (Log (nextSteps opts n)) (emit (Log (nl @ js ''Done!''))
             (snd (gitInit e opts d commitSkipped_index (snd (untilGit_index e arg opts w))))))"
    if h: "fst (untilGit_index e arg opts w) = Return (n, d)"
  proof -
    obtain w1 where w1: "untilGit_index e arg opts w = (Return (n, d), w1)"
      using h by (cases "untilGit_index e arg opts w") auto
    have "action_index e arg opts w = topLevel (fromGit e opts n d commitSkipped_index) w1"
      unfolding action_index_untilGit
      using fromGit_result[of e opts n d commitSkipped_index w1]
      by (simp add: topLevel_def tryCatch_def andThen_def w1 split: prod.splits outcome.splits)
    then show ?thesis by (simp add: fromGit_result w1)
  qed
  have b: "action_part000 e arg opts w =
          (Return (), emit (Log (nextSteps opts n)) (emit (Log (nl @ js ''Done!''))
             (snd (gitInit e opts d commitSkipped_part000 (snd (untilGit_part000 e arg opts w))))))"
    if h: "fst (untilGit_part000 e arg opts w) = Return (n, d)"
  proof -
    obtain w1 where w1: "untilGit_part000 e arg opts w = (Return (n, d), w1)"
      using h by (cases "untilGit_part000 e arg opts w") auto
    have "action_part000 e arg opts w = topLevel (fromGit e opts n d commitSkipped_part000) w1"
      unfolding action_part000_untilGit
      using fromGit_result[of e opts n d commitSkipped_part000 w1]
      by (simp add: topLevel_def tryCatch_def andThen_def w1 split: prod.splits outcome.splits)
    then show ?thesis by (simp add: fromGit_result w1)
  qed
  have g: "fst (gitInit e opts d skipped w') = Return ()"
    by (rule gitInit_returns)
  have x: "exitCode (fst (topLevel (fromGit e opts n d skipped) w')) = 0"
    by (simp add: fromGit_result exitCode_def)
  note t = gitInit_trace[of e opts d skipped w']
  have ai: "fst (untilGit_index e arg opts w) = Return (n, d) \<longrightarrow>
        action_index e arg opts w =
          (Return (), emit (Log (nextSteps opts n)) (emit (Log (nl @ js ''Done!''))
             (snd (gitInit e opts d commitSkipped_index (snd (untilGit_index e arg opts w))))))
        \<and> exitCode (fst (action_index e arg opts w)) = 0"
    using a by (simp add: exitCode_def)
  have bi: "fst (untilGit_part000 e arg opts w) = Return (n, d) \<longrightarrow>
        action_part000 e arg opts w =
          (Return (), emit (Log (nextSteps opts n)) (emit (Log (nl @ js ''Done!''))
             (snd (gitInit e opts d commitSkipped_part000 (snd (untilGit_part000 e arg opts w))))))
        \<and> exitCode (fst (action_part000 e arg opts w)) = 0"
    using b by (simp add: exitCode_def)
  show ?thesis
    by (intro conjI g x t ai bi)
qed

theorem git_stage_never_fatal_witness:
  "exitCode (fst (action_index demoEnv (Some (js ''app'')) demoOptions emptyWorld)) = 0
   \<and> exitCode (fst (action_part000 demoEnv (Some (js ''app'')) demoOptions emptyWorld)) = 0"
  using git_stage_never_fatal[of demoEnv demoOptions "[js ''work'', js ''app'']"
      commitSkipped_index emptyWorld "js ''app''" "Some (js ''app'')" emptyWorld]
    demo_reaches_git_index demo_reaches_git_part000
  by blast

section \<open>Fetch specification and fallback\<close>


lemma topLevel_throw:
  "m w = (Throw err, w1) \<Longrightarrow>
   topLevel (andThen m f) w = (Exit 1, emit (ErrorReport err) w1)"
  by (simp add: topLevel_def prog_defs)





lemma attempts_append: "attempts (xs @ ys) = attempts xs @ attempts ys"
  by (induction xs rule: attempts.induct) auto

lemma tryClone_attempts:
  "attempts (trace (snd (tryClone e d spec w))) = attempts (trace w) @ [spec]"
  by (auto simp: tryClone_def degit_def clone_def prog_defs emit_def attempts_append
      split: option.splits prod.splits)

lemma tryClone_trace:
  "trace (snd (tryClone e d spec w)) =
     trace w @ (if degitFails e spec = None then [Degit spec, Clone spec d] else [Degit spec])"
  by (auto simp: tryClone_def degit_def clone_def prog_defs emit_def
      split: option.splits prod.splits)

lemma tryClone_no_exit: "fst (tryClone e d spec w) \<noteq> Exit k"
  by (auto simp: tryClone_def degit_def clone_def prog_defs split: option.splits prod.splits)

lemma fallback_retry:
  assumes "tryClone e d (buildSpec tp base) w = (Throw err, w1)"
    and "prefix (js ''github:'') base"
  shows "cloneWithFallback e tp base d w =
     (case tryClone e d (fallbackSpec tp base)
             (emit (Warn (retryWarning (buildSpec tp base) (fallbackSpec tp base))) w1) of
        (Return u, w2) \<Rightarrow> (Return (fallbackSpec tp base), w2)
      | (Throw e2, w2) \<Rightarrow> (Throw e2, w2)
      | (Exit k, w2) \<Rightarrow> (Exit k, w2))"
  using assms
  by (simp add: cloneWithFallback_def prog_defs split: prod.splits outcome.splits)

lemma fallback_no_retry:
  assumes "tryClone e d (buildSpec tp base) w = (Throw err, w1)"
    and "\<not> prefix (js ''github:'') base"
  shows "cloneWithFallback e tp base d w =
     (Throw err, emit (Error makeSure) (emit (Error (cloneFailed (buildSpec tp base))) w1))"
  using assms
  by (simp add: cloneWithFallback_def prog_defs split: prod.splits outcome.splits)

lemma cloneOnce_attempts:
  "attempts (trace (snd (cloneOnce e spec d w))) = attempts (trace w) @ [spec]"
  by (auto simp: cloneOnce_def degit_def clone_def prog_defs emit_def attempts_append
      split: option.splits prod.splits)

lemma cloneOnce_fails:
  "fst (cloneOnce e spec d w) = Throw err \<Longrightarrow>
   trace (snd (cloneOnce e spec d w)) = trace w @
     (if degitFails e spec \<noteq> None
      then [Degit spec,
            Error (js ''Failed to create degit emitter. Check your repo/template path.'')]
      else [Degit spec, Clone spec d, Error (cloneFailed spec), Error makeSure])"
  by (auto simp: cloneOnce_def degit_def clone_def prog_defs emit_def
      split: option.splits prod.splits)

text \<open>
  Claim C2, as stated, fails. src/unnamed/part_000 has no fallback: for the descriptor
  \<open>github:owner/repo\<close> and a fetch that fails it makes one attempt, prints the descriptive
  error and exits with code 1.
\<close>

theorem fetch_fallback_counterexample:
  "action_part000 failingFetchEnv (Some (js ''app'')) demoOptions emptyWorld =
     (Exit 1,
      \<lparr>files = [],
       trace =
         [PathExists [js ''work'', js ''app''],
          Log (creating (js ''app'')),
          Degit (js ''github:owner/repo/template''),
          Clone (js ''github:owner/repo/template'') [js ''work'', js ''app''],
          Error (cloneFailed (js ''github:owner/repo/template'')),
          Error makeSure,
          ErrorReport (JsError (js ''could not download''))]\<rparr>)
   \<and> attempts (trace (snd (action_part000 failingFetchEnv (Some (js ''app'')) demoOptions
         emptyWorld))) = [js ''github:owner/repo/template'']"
  by code_simp

text \<open>
  What src/bin/index.js prints when the retry fails too: the warning and the report of the
  top-level handler, without the two lines that its branch for a descriptor without prefix
  prints.
\<close>

lemma failed_retry_example:
  "action_index failingFetchEnv (Some (js ''app'')) demoOptions emptyWorld =
     (Exit 1,
      \<lparr>files = [],
       trace =
         [PathExists [js ''work'', js ''app''],
          Log (creating (js ''app'')),
          Degit (js ''github:owner/repo/template''),
          Clone (js ''github:owner/repo/template'') [js ''work'', js ''app''],
          Warn (retryWarning (js ''github:owner/repo/template'') (js ''owner/repo/template'')),
          Degit (js ''owner/repo/template''),
          Clone (js ''owner/repo/template'') [js ''work'', js ''app''],
          ErrorReport (JsError (js ''could not download''))]\<rparr>)"
  by code_simp

text \<open>
  Claim C2, amended. src/unnamed/part_000 has no fallback: it makes one fetch attempt for
  every descriptor, and when that fails it prints a descriptive error and the error report
  and the process exits with code 1. In src/bin/index.js, when the first attempt fails and
  the descriptor starts with \<open>github:\<close>, a warning naming both specifications is printed
  and the fetch is tried exactly once more, with the specification built from the
  descriptor without the prefix; when the retry succeeds that specification is the final
  one, and when it fails the process exits with code 1. Without the prefix there is one
  attempt, then the two lines of the descriptive error, the error report and exit code 1.
\<close>

theorem fetch_fallback_amended:
  "(templatePath_index opts = Inr tp \<and> repoBase opts = Inr base
      \<and> fst (tryClone e d (buildSpec tp base) w) = Throw err
      \<and> prefix (js ''github:'') base \<longrightarrow>
       js ''github:'' @ drop (length (js ''github:'')) base = base
     \<and> fallbackSpec tp base = buildSpec tp (drop (length (js ''github:'')) base)
     \<and> attempts (trace (snd (fetchTemplate_index e opts d w)))
         = attempts (trace w) @ [buildSpec tp base, fallbackSpec tp base]
     \<and> prefix
         (trace (snd (tryClone e d (buildSpec tp base) w))
            @ [Warn (retryWarning (buildSpec tp base) (fallbackSpec tp base)),
               Degit (fallbackSpec tp base)])
         (trace (snd (fetchTemplate_index e opts d w)))
     \<and> (case fst (tryClone e d (fallbackSpec tp base)
             (emit (Warn (retryWarning (buildSpec tp base) (fallbackSpec tp base)))
               (snd (tryClone e d (buildSpec tp base) w)))) of
           Return u \<Rightarrow>
             fetchTemplate_index e opts d w
               = (Return (fallbackSpec tp base),
                  snd (tryClone e d (fallbackSpec tp base)
                    (emit (Warn (retryWarning (buildSpec tp base) (fallbackSpec tp base)))
                      (snd (tryClone e d (buildSpec tp base) w)))))
         | Throw err' \<Rightarrow> exitCode (fst (topLevel (fromFetch_index e opts n d) w)) = 1
         | Exit k \<Rightarrow> False))
   \<and> (templatePath_index opts = Inr tp \<and> repoBase opts = Inr base
      \<and> fst (tryClone e d (buildSpec tp base) w) = Throw err
      \<and> \<not> prefix (js ''github:'') base \<longrightarrow>
       attempts (trace (snd (fetchTemplate_index e opts d w)))
         = attempts (trace w) @ [buildSpec tp base]
     \<and> topLevel (fromFetch_index e opts n d) w
         = (Exit 1, emit (ErrorReport err) (emit (Error makeSure)
             (emit (Error (cloneFailed (buildSpec tp base)))
               (snd (tryClone e d (buildSpec tp base) w))))))
   \<and> (repoSpec_part000 opts = Inr spec \<longrightarrow>
       attempts (trace (snd (fetchTemplate_part000 e opts d w))) = attempts (trace w) @ [spec])
   \<and> (repoSpec_part000 opts = Inr spec
      \<and> fst (fetchTemplate_part000 e opts d w) = Throw err \<longrightarrow>
       trace (snd (fetchTemplate_part000 e opts d w)) = trace w @
         (if degitFails e spec \<noteq> None
          then [Degit spec,
                Error (js ''Failed to create degit emitter. Check your repo/template path.'')]
          else [Degit spec, Clone spec d, Error (cloneFailed spec), Error makeSure])
     \<and> topLevel (fromFetch_part000 e opts n d) w
         = (Exit 1, emit (ErrorReport err) (snd (fetchTemplate_part000 e opts d w))))"
proof (intro conjI impI; (elim conjE)?)
  assume tp: "templatePath_index opts = Inr tp" and b: "repoBase opts = Inr base"
    and f: "fst (tryClone e d (buildSpec tp base) w) = Throw err"
    and p: "prefix (js ''github:'') base"
  let ?w1 = "snd (tryClone e d (buildSpec tp base) w)"
  let ?ww = "emit (Warn (retryWarning (buildSpec tp base) (fallbackSpec tp base))) ?w1"
  have fe: "fetchTemplate_index e opts d = cloneWithFallback e tp base d"
    by (simp add: fetchTemplate_index_def tp b)
  from f have t: "tryClone e d (buildSpec tp base) w = (Throw err, ?w1)"
    by (cases "tryClone e d (buildSpec tp base) w") auto
  note r = fallback_retry[OF t p]
  show "js ''github:'' @ drop (length (js ''github:'')) base = base"
    using p by (auto simp: prefix_def)
  show "fallbackSpec tp base = buildSpec tp (drop (length (js ''github:'')) base)"
    by (simp add: fallbackSpec_def)
  have s: "snd (fetchTemplate_index e opts d w) = snd (tryClone e d (fallbackSpec tp base) ?ww)"
    by (simp add: fe r split: prod.splits outcome.splits)
  have "attempts (trace ?w1) = attempts (trace w) @ [buildSpec tp base]"
    by (rule tryClone_attempts)
  then show "attempts (trace (snd (fetchTemplate_index e opts d w)))
         = attempts (trace w) @ [buildSpec tp base, fallbackSpec tp base]"
    by (simp add: s tryClone_attempts emit_def attempts_append)
  show "prefix
         (trace ?w1 @ [Warn (retryWarning (buildSpec tp base) (fallbackSpec tp base)),
               Degit (fallbackSpec tp base)])
         (trace (snd (fetchTemplate_index e opts d w)))"
    by (simp add: s tryClone_trace emit_def)
  show "case fst (tryClone e d (fallbackSpec tp base) ?ww) of
           Return u \<Rightarrow>
             fetchTemplate_index e opts d w
               = (Return (fallbackSpec tp base), snd (tryClone e d (fallbackSpec tp base) ?ww))
         | Throw err' \<Rightarrow> exitCode (fst (topLevel (fromFetch_index e opts n d) w)) = 1
         | Exit k \<Rightarrow> False"
  proof (cases "tryClone e d (fallbackSpec tp base) ?ww")
    case (Pair o2 w2)
    show ?thesis
    proof (cases o2)
      case (Return u)
      with Pair r fe show ?thesis by simp
    next
      case (Throw err')
      with Pair r fe have "fetchTemplate_index e opts d w = (Throw err', w2)" by simp
      then have "topLevel (fromFetch_index e opts n d) w = (Exit 1, emit (ErrorReport err') w2)"
        unfolding fromFetch_index_def by (rule topLevel_throw)
      with Pair Throw show ?thesis by (simp add: exitCode_def)
    next
      case (Exit k)
      with Pair tryClone_no_exit[of e d "fallbackSpec tp base" ?ww k] show ?thesis by simp
    qed
  qed
next
  assume tp: "templatePath_index opts = Inr tp" and b: "repoBase opts = Inr base"
    and f: "fst (tryClone e d (buildSpec tp base) w) = Throw err"
    and p: "\<not> prefix (js ''github:'') base"
  let ?w1 = "snd (tryClone e d (buildSpec tp base) w)"
  have fe: "fetchTemplate_index e opts d = cloneWithFallback e tp base d"
    by (simp add: fetchTemplate_index_def tp b)
  from f have t: "tryClone e d (buildSpec tp base) w = (Throw err, ?w1)"
    by (cases "tryClone e d (buildSpec tp base) w") auto
  note r = fallback_no_retry[OF t p]
  show "attempts (trace (snd (fetchTemplate_index e opts d w)))
         = attempts (trace w) @ [buildSpec tp base]"
    using tryClone_attempts[of e d "buildSpec tp base" w]
    by (simp add: fe r emit_def attempts_append)
  have "fetchTemplate_index e opts d w
      = (Throw err, emit (Error makeSure) (emit (Error (cloneFailed (buildSpec tp base))) ?w1))"
    by (simp add: fe r)
  then show "topLevel (fromFetch_index e opts n d) w
         = (Exit 1, emit (ErrorReport err) (emit (Error makeSure)
             (emit (Error (cloneFailed (buildSpec tp base))) ?w1)))"
    unfolding fromFetch_index_def by (rule topLevel_throw)
next
  assume "repoSpec_part000 opts = Inr spec"
  then show "attempts (trace (snd (fetchTemplate_part000 e opts d w)))
      = attempts (trace w) @ [spec]"
    by (simp add: fetchTemplate_part000_def cloneOnce_attempts)
next
  assume sp: "repoSpec_part000 opts = Inr spec"
    and f: "fst (fetchTemplate_part000 e opts d w) = Throw err"
  have fe: "fetchTemplate_part000 e opts d = cloneOnce e spec d"
    by (simp add: fetchTemplate_part000_def sp)
  from f have t: "fetchTemplate_part000 e opts d w
      = (Throw err, snd (fetchTemplate_part000 e opts d w))"
    by (cases "fetchTemplate_part000 e opts d w") auto
  show "trace (snd (fetchTemplate_part000 e opts d w)) = trace w @
         (if degitFails e spec \<noteq> None
          then [Degit spec,
                Error (js ''Failed to create degit emitter. Check your repo/template path.'')]
          else [Degit spec, Clone spec d, Error (cloneFailed spec), Error makeSure])"
    using f unfolding fe by (rule cloneOnce_fails)
  show "topLevel (fromFetch_part000 e opts n d) w
         = (Exit 1, emit (ErrorReport err) (snd (fetchTemplate_part000 e opts d w)))"
    unfolding fromFetch_part000_def using t by (rule topLevel_throw)
qed

theorem fetch_fallback_amended_witness:
  "exitCode (fst (topLevel (fromFetch_index failingFetchEnv demoOptions (js ''app'')
       [js ''work'', js ''app'']) emptyWorld)) = 1
   \<and> attempts (trace (snd (fetchTemplate_index failingFetchEnv demoOptions
       [js ''work'', js ''app''] emptyWorld)))
     = [js ''github:owner/repo/template'', js ''owner/repo/template'']
   \<and> topLevel (fromFetch_index failingFetchEnv plainOptions (js ''app'') [js ''work'', js ''app''])
     emptyWorld =
     (Exit 1,
      \<lparr>files = [],
       trace =
         [Degit (js ''owner/repo/template''),
          Clone (js ''owner/repo/template'') [js ''work'', js ''app''],
          Error (cloneFailed (js ''owner/repo/template'')),
          Error makeSure,
          ErrorReport (JsError (js ''could not download''))]\<rparr>)
   \<and> topLevel (fromFetch_part000 failingFetchEnv demoOptions (js ''app'') [js ''work'', js ''app''])
     emptyWorld =
     (Exit 1,
      \<lparr>files = [],
       trace =
         [Degit (js ''github:owner/repo/template''),
          Clone (js ''github:owner/repo/template'') [js ''work'', js ''app''],
          Error (cloneFailed (js ''github:owner/repo/template'')),
          Error makeSure,
          ErrorReport (JsError (js ''could not download''))]\<rparr>)"
proof -
  have tp: "templatePath_index demoOptions = Inr (js ''template'')"
    "templatePath_index plainOptions = Inr (js ''template'')"
    and b1: "repoBase demoOptions = Inr (js ''github:owner/repo'')"
    and b2: "repoBase plainOptions = Inr (js ''owner/repo'')"
    and s4: "repoSpec_part000 demoOptions = Inr (js ''github:owner/repo/template'')"
    and s1: "buildSpec (js ''template'') (js ''github:owner/repo'') = js ''github:owner/repo/template''"
    and s2: "fallbackSpec (js ''template'') (js ''github:owner/repo'') = js ''owner/repo/template''"
    and s3: "buildSpec (js ''template'') (js ''owner/repo'') = js ''owner/repo/template''"
    by code_simp+
  have p1: "prefix (js ''github:'') (js ''github:owner/repo'')"
    and p2: "\<not> prefix (js ''github:'') (js ''owner/repo'')"
    by (simp_all add: js_def)
  note defs = tryClone_def degit_def clone_def prog_defs emit_def failingFetchEnv_def
    demoEnv_def emptyWorld_def fetchTemplate_part000_def cloneOnce_def
  have h1: "fst (tryClone failingFetchEnv [js ''work'', js ''app'']
      (buildSpec (js ''template'') (js ''github:owner/repo'')) emptyWorld)
      = Throw (JsError (js ''could not download''))"
    by (simp add: defs)
  have h2: "fst (tryClone failingFetchEnv [js ''work'', js ''app'']
      (buildSpec (js ''template'') (js ''owner/repo'')) emptyWorld)
      = Throw (JsError (js ''could not download''))"
    by (simp add: defs)
  have h3: "fst (fetchTemplate_part000 failingFetchEnv demoOptions [js ''work'', js ''app'']
      emptyWorld) = Throw (JsError (js ''could not download''))"
    by (simp add: defs s4)
  have h4: "fst (tryClone failingFetchEnv [js ''work'', js ''app'']
        (fallbackSpec (js ''template'') (js ''github:owner/repo''))
        (emit (Warn (retryWarning (buildSpec (js ''template'') (js ''github:owner/repo''))
                 (fallbackSpec (js ''template'') (js ''github:owner/repo''))))
           (snd (tryClone failingFetchEnv [js ''work'', js ''app'']
              (buildSpec (js ''template'') (js ''github:owner/repo'')) emptyWorld))))
      = Throw (JsError (js ''could not download''))"
    by (simp add: defs)
  from fetch_fallback_amended[of demoOptions "js ''template''" "js ''github:owner/repo''"
      failingFetchEnv "[js ''work'', js ''app'']" emptyWorld
      "JsError (js ''could not download'')" "js ''app''" "js ''github:owner/repo/template''"]
    tp(1) b1 h1 p1 s4 h3
  have a: "case fst (tryClone failingFetchEnv [js ''work'', js ''app'']
        (fallbackSpec (js ''template'') (js ''github:owner/repo''))
        (emit (Warn (retryWarning (buildSpec (js ''template'') (js ''github:owner/repo''))
                 (fallbackSpec (js ''template'') (js ''github:owner/repo''))))
           (snd (tryClone failingFetchEnv [js ''work'', js ''app'']
              (buildSpec (js ''template'') (js ''github:owner/repo'')) emptyWorld)))) of
           Return u \<Rightarrow>
             fetchTemplate_index failingFetchEnv demoOptions [js ''work'', js ''app''] emptyWorld
               = (Return (fallbackSpec (js ''template'') (js ''github:owner/repo'')),
                  snd (tryClone failingFetchEnv [js ''work'', js ''app'']
                    (fallbackSpec (js ''template'') (js ''github:owner/repo''))
                    (emit (Warn (retryWarning
                         (buildSpec (js ''template'') (js ''github:owner/repo''))
                         (fallbackSpec (js ''template'') (js ''github:owner/repo''))))
                      (snd (tryClone failingFetchEnv [js ''work'', js ''app'']
                         (buildSpec (js ''template'') (js ''github:owner/repo''))
                         emptyWorld)))))
         | Throw err' \<Rightarrow>
             exitCode (fst (topLevel (fromFetch_index failingFetchEnv demoOptions (js ''app'')
               [js ''work'', js ''app'']) emptyWorld)) = 1
         | Exit k \<Rightarrow> False"
    and at: "attempts (trace (snd (fetchTemplate_index failingFetchEnv demoOptions
          [js ''work'', js ''app''] emptyWorld)))
        = attempts (trace emptyWorld)
          @ [buildSpec (js ''template'') (js ''github:owner/repo''),
             fallbackSpec (js ''template'') (js ''github:owner/repo'')]"
    and c: "topLevel (fromFetch_part000 failingFetchEnv demoOptions (js ''app'')
               [js ''work'', js ''app'']) emptyWorld
         = (Exit 1, emit (ErrorReport (JsError (js ''could not download'')))
              (snd (fetchTemplate_part000 failingFetchEnv demoOptions [js ''work'', js ''app'']
                 emptyWorld)))"
    by blast+
  from fetch_fallback_amended[of plainOptions "js ''template''" "js ''owner/repo''"
      failingFetchEnv "[js ''work'', js ''app'']" emptyWorld
      "JsError (js ''could not download'')" "js ''app''"] tp(2) b2 h2 p2
  have b: "topLevel (fromFetch_index failingFetchEnv plainOptions (js ''app'')
               [js ''work'', js ''app'']) emptyWorld
         = (Exit 1, emit (ErrorReport (JsError (js ''could not download''))) (emit (Error makeSure)
             (emit (Error (cloneFailed (buildSpec (js ''template'') (js ''owner/repo''))))
               (snd (tryClone failingFetchEnv [js ''work'', js ''app'']
                  (buildSpec (js ''template'') (js ''owner/repo'')) emptyWorld)))))"
    by blast
  have a': "exitCode (fst (topLevel (fromFetch_index failingFetchEnv demoOptions (js ''app'')
               [js ''work'', js ''app'']) emptyWorld)) = 1"
    using a unfolding h4 by simp
  have at': "attempts (trace (snd (fetchTemplate_index failingFetchEnv demoOptions
       [js ''work'', js ''app''] emptyWorld)))
     = [js ''github:owner/repo/template'', js ''owner/repo/template'']"
    unfolding at s1 s2 by (simp add: emptyWorld_def)
  have b': "topLevel (fromFetch_index failingFetchEnv plainOptions (js ''app'')
       [js ''work'', js ''app'']) emptyWorld =
     (Exit 1,
      \<lparr>files = [],
       trace =
         [Degit (js ''owner/repo/template''),
          Clone (js ''owner/repo/template'') [js ''work'', js ''app''],
          Error (cloneFailed (js ''owner/repo/template'')),
          Error makeSure,
          ErrorReport (JsError (js ''could not download''))]\<rparr>)"
    unfolding b s3 by (simp add: defs)
  have c': "topLevel (fromFetch_part000 failingFetchEnv demoOptions (js ''app'')
       [js ''work'', js ''app'']) emptyWorld =
     (Exit 1,
      \<lparr>files = [],
       trace =
         [Degit (js ''github:owner/repo/template''),
          Clone (js ''github:owner/repo/template'') [js ''work'', js ''app''],
          Error (cloneFailed (js ''github:owner/repo/template'')),
          Error makeSure,
          ErrorReport (JsError (js ''could not download''))]\<rparr>)"
    unfolding c by (simp add: defs s4)
  show ?thesis
    by (intro conjI a' at' b' c')
qed

section \<open>Manifest rewriting\<close>

lemma getSubstitution_plain:
  "dollar \<notin> set rep \<Longrightarrow> getSubstitution m p f rep = rep"
  by (induction m p f rep rule: getSubstitution.induct) auto

lemma replaceAllFrom_substitute:
  "dollar \<notin> set rep \<Longrightarrow> replaceAllFrom tok rep p s = substitute tok rep s"
  by (induction tok rep p s rule: replaceAllFrom.induct) (auto simp: getSubstitution_plain)

lemma replaceAll_substitute:
  "dollar \<notin> set rep \<Longrightarrow> replaceAll tok rep s = substitute tok rep s"
  by (simp add: replaceAll_def replaceAllFrom_substitute)

lemma overlapsD:
  assumes "\<not> overlaps rep t"
  shows "rep \<noteq> []" and "\<not> sublist rep t" and "\<not> sublist t rep"
    and "\<And>x. x \<noteq> [] \<Longrightarrow> prefix x rep \<Longrightarrow> \<not> suffix x t"
    and "\<And>x. x \<noteq> [] \<Longrightarrow> suffix x rep \<Longrightarrow> \<not> prefix x t"
  using assms by (auto simp: overlaps_def list_ex_iff)

lemma prefix_substitute:
  "\<not> overlaps rep t \<Longrightarrow> suffix x t \<Longrightarrow> prefix x (substitute tok rep s) \<Longrightarrow> prefix x s"
proof (induction tok rep s arbitrary: x rule: substitute.induct)
  case (1 tok rep)
  then show ?case by simp
next
  case (2 tok rep c cs)
  note ov = overlapsD[OF "2.prems"(1)]
  show ?case
  proof (cases "tok \<noteq> [] \<and> prefix tok (c # cs)")
    case True
    with "2.prems"(3)
    have "prefix x (rep @ substitute tok rep (drop (length tok) (c # cs)))" by simp
    then have "prefix x rep \<or> (\<exists>us. x = rep @ us)"
      by (auto simp: prefix_append)
    then have "x = []"
    proof
      assume "prefix x rep"
      with ov(4)[of x] "2.prems"(2) show ?thesis by blast
    next
      assume "\<exists>us. x = rep @ us"
      then have "sublist rep x" by auto
      moreover have "sublist x t" using "2.prems"(2) by (rule suffix_imp_sublist)
      ultimately have "sublist rep t" by (rule sublist_order.order.trans)
      with ov(2) show ?thesis by contradiction
    qed
    then show ?thesis by simp
  next
    case False
    with "2.prems"(3) have p: "prefix x (c # substitute tok rep cs)"
      by (auto split: if_splits)
    show ?thesis
    proof (cases x)
      case Nil
      then show ?thesis by simp
    next
      case (Cons a x')
      with p have a: "a = c" and q: "prefix x' (substitute tok rep cs)" by auto
      have "suffix x' x" using Cons by (simp add: suffix_def)
      then have sx: "suffix x' t" using "2.prems"(2) by (rule suffix_order.trans)
      have "prefix x' cs" by (rule "2.IH"(2)[OF False "2.prems"(1) sx q])
      with a Cons show ?thesis by simp
    qed
  qed
qed

lemma sublist_behind_rep:
  assumes ov: "\<not> overlaps rep t" and s: "sublist t (rep @ ys)"
  shows "sublist t ys"
proof -
  note o = overlapsD[OF ov]
  from s consider "sublist t rep" | "sublist t ys"
    | t1 t2 where "t = t1 @ t2" "suffix t1 rep" "prefix t2 ys"
    by (auto simp: sublist_append)
  then show ?thesis
  proof cases
    case 1
    with o(3) show ?thesis by contradiction
  next
    case 2
    then show ?thesis .
  next
    case 3
    show ?thesis
    proof (cases "t1 = []")
      case True
      with 3 have "prefix t ys" by simp
      then show ?thesis by (rule prefix_imp_sublist)
    next
      case False
      have "prefix t1 t" using 3(1) by simp
      with o(5)[OF False 3(2)] show ?thesis by contradiction
    qed
  qed
qed

lemma sublist_substitute:
  "\<not> overlaps rep t \<Longrightarrow> sublist t (substitute tok rep s) \<Longrightarrow> sublist t s"
proof (induction tok rep s rule: substitute.induct)
  case (1 tok rep)
  then show ?case by simp
next
  case (2 tok rep c cs)
  show ?case
  proof (cases "tok \<noteq> [] \<and> prefix tok (c # cs)")
    case True
    with "2.prems"(2)
    have "sublist t (rep @ substitute tok rep (drop (length tok) (c # cs)))" by simp
    then have "sublist t (substitute tok rep (drop (length tok) (c # cs)))"
      by (rule sublist_behind_rep[OF "2.prems"(1)])
    then have "sublist t (drop (length tok) (c # cs))"
      by (rule "2.IH"(1)[OF True "2.prems"(1)])
    then show ?thesis
      by (rule sublist_order.order.trans) (rule sublist_drop)
  next
    case False
    with "2.prems"(2) have "sublist t (c # substitute tok rep cs)" by (auto split: if_splits)
    then have "prefix t (c # substitute tok rep cs) \<or> sublist t (substitute tok rep cs)"
      by (simp add: sublist_Cons_right)
    then show ?thesis
    proof
      assume "prefix t (c # substitute tok rep cs)"
      then have "prefix t (substitute tok rep (c # cs))" using False by auto
      then have "prefix t (c # cs)"
        by (rule prefix_substitute[OF "2.prems"(1) suffix_order.refl])
      then show ?thesis by (rule prefix_imp_sublist)
    next
      assume "sublist t (substitute tok rep cs)"
      then have "sublist t cs" by (rule "2.IH"(2)[OF False "2.prems"(1)])
      then show ?thesis by (simp add: sublist_Cons_right)
    qed
  qed
qed

lemma token_gone:
  "tok \<noteq> [] \<Longrightarrow> \<not> overlaps rep tok \<Longrightarrow> \<not> sublist tok (substitute tok rep s)"
proof (induction tok rep s rule: substitute.induct)
  case (1 tok rep)
  then show ?case by simp
next
  case (2 tok rep c cs)
  show ?case
  proof (cases "tok \<noteq> [] \<and> prefix tok (c # cs)")
    case True
    have ih: "\<not> sublist tok (substitute tok rep (drop (length tok) (c # cs)))"
      by (rule "2.IH"(1)[OF True "2.prems"])
    show ?thesis
    proof
      assume "sublist tok (substitute tok rep (c # cs))"
      with True have "sublist tok (rep @ substitute tok rep (drop (length tok) (c # cs)))"
        by simp
      then have "sublist tok (substitute tok rep (drop (length tok) (c # cs)))"
        by (rule sublist_behind_rep[OF "2.prems"(2)])
      with ih show False by contradiction
    qed
  next
    case False
    have ih: "\<not> sublist tok (substitute tok rep cs)"
      by (rule "2.IH"(2)[OF False "2.prems"])
    show ?thesis
    proof
      assume a: "sublist tok (substitute tok rep (c # cs))"
      with False have "sublist tok (c # substitute tok rep cs)" by (auto split: if_splits)
      then have "prefix tok (c # substitute tok rep cs)" using ih
        by (simp add: sublist_Cons_right)
      then have "prefix tok (substitute tok rep (c # cs))" using False by auto
      then have "prefix tok (c # cs)"
        by (rule prefix_substitute[OF "2.prems"(2) suffix_order.refl])
      with False "2.prems"(1) show False by simp
    qed
  qed
qed

lemma rewrite_clean:
  assumes nt: "nameTok \<noteq> []" and st: "slugTok \<noteq> []"
    and d1: "\<not> overlaps name nameTok"
    and d2: "\<not> overlaps slug nameTok"
    and d3: "\<not> overlaps slug slugTok"
  shows "\<not> sublist nameTok (substitute slugTok slug (substitute nameTok name pkg))"
    and "\<not> sublist slugTok (substitute slugTok slug (substitute nameTok name pkg))"
proof -
  show "\<not> sublist nameTok (substitute slugTok slug (substitute nameTok name pkg))"
    using sublist_substitute[OF d2] token_gone[OF nt d1] by blast
  show "\<not> sublist slugTok (substitute slugTok slug (substitute nameTok name pkg))"
    by (rule token_gone[OF st d3])
qed

lemma rewriteManifest_present:
  "map_of (files w) (pkgPath d) = Some (File pkg) \<Longrightarrow>
   rewriteManifest f name d w =
     (Return (),
      w\<lparr>files := (pkgPath d, File (f name pkg)) # filter (\<lambda>(q, n). q \<noteq> pkgPath d) (files w),
        trace := trace w @ [PathExists (pkgPath d), ReadFile (pkgPath d),
                   WriteFile (pkgPath d) (f name pkg)]\<rparr>)"
  by (simp add: rewriteManifest_def pathExists_def readFile_def writeFile_def prog_defs emit_def)

lemma slugify_no_dollar: "dollar \<notin> set (slugify tbl name)"
proof
  assume "dollar \<in> set (slugify tbl name)"
  moreover have "list_all slugClass (slugify tbl name)"
    using slugify_shaped[of tbl name] by (simp add: slugShaped_def)
  ultimately have "slugClass dollar" by (simp add: list_all_iff)
  then show False by (simp add: slugClass_def dollar_def)
qed

text \<open>
  Claim C5, as stated, fails. In src/bin/index.js the token replaced by the project name is
  the name of the template; a project of that very name leaves the manifest as it was, the
  token still in it.
\<close>

theorem manifest_rewrite_counterexample:
  "rewriteText_index demoTable (js ''convexity-n-layer-template'')
      (js ''name: convexity-n-layer-template'')
     = js ''name: convexity-n-layer-template''
   \<and> sublist templateNameToken (js ''name: convexity-n-layer-template'')"
  by code_simp

text \<open>
  A dollar pattern in the project name is expanded by \<open>String.prototype.replace\<close>: the
  name \<open>$&\<close> puts the token back.
\<close>

lemma dollar_pattern_example:
  "rewriteText_part000 demoTable (js ''$&'') (js ''name: __PROJECT_NAME__'')
     = js ''name: __PROJECT_NAME__''"
  by code_simp

text \<open>
  Claim C5, amended. When a package manifest exists at the root of the target directory,
  the manifest rewriter reads it, rewrites the text and writes it back to the same file.
  For every manifest text and every project name without a dollar sign, the rewritten text
  is the text in which every occurrence of the name token (found from the left, without
  overlap) is replaced by the project name and then every occurrence of the slug token by
  the slug. No occurrence of either token remains when moreover the name does not overlap
  the name token and the slug overlaps neither the name token nor the slug token.
\<close>

theorem manifest_rewrite_amended:
  assumes "dollar \<notin> set name"
  shows "rewriteText_index (caseTable e) name pkg
       = substitute projectSlugToken (slugify (caseTable e) name)
           (substitute templateNameToken name pkg)
     \<and> rewriteText_part000 (caseTable e) name pkg
       = substitute projectSlugToken (slugify (caseTable e) name)
           (substitute projectNameToken name pkg)
     \<and> (map_of (files w) (pkgPath d) = Some (File pkg) \<longrightarrow>
          rewriteManifest_index e name d w =
            (Return (),
             w\<lparr>files := (pkgPath d, File (rewriteText_index (caseTable e) name pkg))
                  # filter (\<lambda>(q, n). q \<noteq> pkgPath d) (files w),
               trace := trace w @ [PathExists (pkgPath d), ReadFile (pkgPath d),
                  WriteFile (pkgPath d) (rewriteText_index (caseTable e) name pkg)]\<rparr>)
        \<and> rewriteManifest_part000 e name d w =
            (Return (),
             w\<lparr>files := (pkgPath d, File (rewriteText_part000 (caseTable e) name pkg))
                  # filter (\<lambda>(q, n). q \<noteq> pkgPath d) (files w),
               trace := trace w @ [PathExists (pkgPath d), ReadFile (pkgPath d),
                  WriteFile (pkgPath d) (rewriteText_part000 (caseTable e) name pkg)]\<rparr>))
     \<and> (\<not> overlaps name templateNameToken
          \<and> \<not> overlaps (slugify (caseTable e) name) templateNameToken
          \<and> \<not> overlaps (slugify (caseTable e) name) projectSlugToken
        \<longrightarrow> \<not> sublist templateNameToken (rewriteText_index (caseTable e) name pkg)
          \<and> \<not> sublist projectSlugToken (rewriteText_index (caseTable e) name pkg))
     \<and> (\<not> overlaps name projectNameToken
          \<and> \<not> overlaps (slugify (caseTable e) name) projectNameToken
          \<and> \<not> overlaps (slugify (caseTable e) name) projectSlugToken
        \<longrightarrow> \<not> sublist projectNameToken (rewriteText_part000 (caseTable e) name pkg)
          \<and> \<not> sublist projectSlugToken (rewriteText_part000 (caseTable e) name pkg))"
proof -
  have i: "rewriteText_index (caseTable e) name pkg
       = substitute projectSlugToken (slugify (caseTable e) name)
           (substitute templateNameToken name pkg)"
    by (simp add: rewriteText_index_def replaceAll_substitute assms slugify_no_dollar)
  have p: "rewriteText_part000 (caseTable e) name pkg
       = substitute projectSlugToken (slugify (caseTable e) name)
           (substitute projectNameToken name pkg)"
    by (simp add: rewriteText_part000_def replaceAll_substitute assms slugify_no_dollar)
  have t: "templateNameToken \<noteq> []" "projectNameToken \<noteq> []" "projectSlugToken \<noteq> []"
    by (simp_all add: templateNameToken_def projectNameToken_def projectSlugToken_def js_def)
  have m: "rewriteManifest_index e name d w =
            (Return (),
             w\<lparr>files := (pkgPath d, File (rewriteText_index (caseTable e) name pkg))
                  # filter (\<lambda>(q, n). q \<noteq> pkgPath d) (files w),
               trace := trace w @ [PathExists (pkgPath d), ReadFile (pkgPath d),
                  WriteFile (pkgPath d) (rewriteText_index (caseTable e) name pkg)]\<rparr>)
        \<and> rewriteManifest_part000 e name d w =
            (Return (),
             w\<lparr>files := (pkgPath d, File (rewriteText_part000 (caseTable e) name pkg))
                  # filter (\<lambda>(q, n). q \<noteq> pkgPath d) (files w),
               trace := trace w @ [PathExists (pkgPath d), ReadFile (pkgPath d),
                  WriteFile (pkgPath d) (rewriteText_part000 (caseTable e) name pkg)]\<rparr>)"
    if "map_of (files w) (pkgPath d) = Some (File pkg)"
    unfolding rewriteManifest_index_def rewriteManifest_part000_def
    using rewriteManifest_present[OF that] by simp
  have ci: "\<not> sublist templateNameToken (rewriteText_index (caseTable e) name pkg)
          \<and> \<not> sublist projectSlugToken (rewriteText_index (caseTable e) name pkg)"
    if "\<not> overlaps name templateNameToken"
      "\<not> overlaps (slugify (caseTable e) name) templateNameToken"
      "\<not> overlaps (slugify (caseTable e) name) projectSlugToken"
    unfolding i using rewrite_clean[OF t(1) t(3) that, of pkg] by blast
  have cp: "\<not> sublist projectNameToken (rewriteText_part000 (caseTable e) name pkg)
          \<and> \<not> sublist projectSlugToken (rewriteText_part000 (caseTable e) name pkg)"
    if "\<not> overlaps name projectNameToken"
      "\<not> overlaps (slugify (caseTable e) name) projectNameToken"
      "\<not> overlaps (slugify (caseTable e) name) projectSlugToken"
    unfolding p using rewrite_clean[OF t(2) t(3) that, of pkg] by blast
  show ?thesis using i p m ci cp by blast
qed

lemma slugify_example_demo: "slugify demoTable (js ''My Cool App!!'') = js ''my-cool-app''"
  by (rule slugify_example)

theorem manifest_rewrite_amended_witness:
  "\<not> sublist templateNameToken (rewriteText_index demoTable (js ''My Cool App!!'') demoManifest)
   \<and> \<not> sublist projectSlugToken (rewriteText_index demoTable (js ''My Cool App!!'') demoManifest)
   \<and> \<not> sublist projectNameToken (rewriteText_part000 demoTable (js ''My Cool App!!'') demoManifest)
   \<and> \<not> sublist projectSlugToken (rewriteText_part000 demoTable (js ''My Cool App!!'') demoManifest)
   \<and> files (snd (rewriteManifest_index demoEnv (js ''My Cool App!!'') [js ''work'', js ''app'']
         fetchedWorld))
       = [([js ''work'', js ''app'', js ''package.json''],
           File (rewriteText_index demoTable (js ''My Cool App!!'') demoManifest)),
          ([js ''work'', js ''app''], Dir)]
   \<and> files (snd (rewriteManifest_part000 demoEnv (js ''My Cool App!!'') [js ''work'', js ''app'']
         fetchedWorld))
       = [([js ''work'', js ''app'', js ''package.json''],
           File (rewriteText_part000 demoTable (js ''My Cool App!!'') demoManifest)),
          ([js ''work'', js ''app''], Dir)]"
proof -
  have d: "dollar \<notin> set (js ''My Cool App!!'')"
    by (simp add: js_def dollar_def)
  have c: "caseTable demoEnv = demoTable" by (simp add: demoEnv_def)
  have o: "\<not> overlaps (js ''My Cool App!!'') templateNameToken"
    "\<not> overlaps (js ''My Cool App!!'') projectNameToken"
    "\<not> overlaps (js ''my-cool-app'') templateNameToken"
    "\<not> overlaps (js ''my-cool-app'') projectNameToken"
    "\<not> overlaps (js ''my-cool-app'') projectSlugToken"
    by code_simp+
  have f: "map_of (files fetchedWorld) (pkgPath [js ''work'', js ''app'']) = Some (File demoManifest)"
    by (simp add: fetchedWorld_def pkgPath_def)
  have g: "filter (\<lambda>(q, n). q \<noteq> [js ''work'', js ''app'', js ''package.json''])
        (files fetchedWorld)
      = [([js ''work'', js ''app''], Dir)]"
    by (simp add: fetchedWorld_def)
  have pk: "pkgPath [js ''work'', js ''app''] = [js ''work'', js ''app'', js ''package.json'']"
    by (simp add: pkgPath_def)
  note th = manifest_rewrite_amended[OF d, of demoEnv demoManifest fetchedWorld
      "[js ''work'', js ''app'']", unfolded c slugify_example_demo]
  from th o
  have z: "\<not> sublist templateNameToken
        (rewriteText_index demoTable (js ''My Cool App!!'') demoManifest)"
    "\<not> sublist projectSlugToken
        (rewriteText_index demoTable (js ''My Cool App!!'') demoManifest)"
    "\<not> sublist projectNameToken
        (rewriteText_part000 demoTable (js ''My Cool App!!'') demoManifest)"
    "\<not> sublist projectSlugToken
        (rewriteText_part000 demoTable (js ''My Cool App!!'') demoManifest)"
    by blast+
  from th f
  have m1: "rewriteManifest_index demoEnv (js ''My Cool App!!'') [js ''work'', js ''app'']
        fetchedWorld =
      (Return (),
       fetchedWorld\<lparr>files := (pkgPath [js ''work'', js ''app''],
             File (rewriteText_index demoTable (js ''My Cool App!!'') demoManifest))
           # filter (\<lambda>(q, n). q \<noteq> pkgPath [js ''work'', js ''app'']) (files fetchedWorld),
         trace := trace fetchedWorld @ [PathExists (pkgPath [js ''work'', js ''app'']),
           ReadFile (pkgPath [js ''work'', js ''app'']),
           WriteFile (pkgPath [js ''work'', js ''app''])
             (rewriteText_index demoTable (js ''My Cool App!!'') demoManifest)]\<rparr>)"
    and m2: "rewriteManifest_part000 demoEnv (js ''My Cool App!!'') [js ''work'', js ''app'']
        fetchedWorld =
      (Return (),
       fetchedWorld\<lparr>files := (pkgPath [js ''work'', js ''app''],
             File (rewriteText_part000 demoTable (js ''My Cool App!!'') demoManifest))
           # filter (\<lambda>(q, n). q \<noteq> pkgPath [js ''work'', js ''app'']) (files fetchedWorld),
         trace := trace fetchedWorld @ [PathExists (pkgPath [js ''work'', js ''app'']),
           ReadFile (pkgPath [js ''work'', js ''app'']),
           WriteFile (pkgPath [js ''work'', js ''app''])
             (rewriteText_part000 demoTable (js ''My Cool App!!'') demoManifest)]\<rparr>)"
    by blast+
  show ?thesis
    using z by (simp add: m1 m2 pk g)
qed

section \<open>The project name\<close>

text \<open>
  Claim C6 does not hold of the code: a positional project name is used as it is given.
  For the argument \<open>" a"\<close> the target directory is named \<open>" a"\<close> and the name written into
  the manifest is \<open>" a"\<close>, while the trimmed name is \<open>a\<close>; the argument of two blanks is
  accepted although it is empty when trimmed. Only the prompted name is trimmed and
  validated.
\<close>

theorem positional_name_kept_verbatim:
  "resolveProjectName demoEnv (Some (js '' a'')) emptyWorld = (Return (js '' a''), emptyWorld)
   \<and> trim (js '' a'') = js ''a''
   \<and> files (snd (action_part000 demoEnv (Some (js '' a'')) demoOptions emptyWorld))
       = [([js ''work'', js '' a'', js ''package.json''],
           File (js ''n= a;s=a;t=convexity-n-layer-template'')),
          ([js ''work'', js '' a''], Dir)]
   \<and> files (snd (action_index demoEnv (Some (js '' a'')) demoOptions emptyWorld))
       = [([js ''work'', js '' a'', js ''package.json''],
           File (js ''n=__PROJECT_NAME__;s=a;t= a'')),
          ([js ''work'', js '' a''], Dir)]
   \<and> resolveProjectName demoEnv (Some (js ''  '')) emptyWorld = (Return (js ''  ''), emptyWorld)
   \<and> trim (js ''  '') = []"
  by code_simp

end
